theory Spec2Isabelle
  imports Main "HOL-Library.Word"
begin

section \<open>Shopify to ERP middleware: transform, encode, deliver\<close>

text \<open>
  A shallow embedding of \<^verbatim>\<open>main.go\<close>: the order structs, \<^verbatim>\<open>transformOrder\<close>,
  \<^verbatim>\<open>xmlEscape\<close>, \<^verbatim>\<open>createSOAPEnvelope\<close> and the retry loop of \<^verbatim>\<open>sendToERP\<close>.
  Go strings are byte sequences, modelled as \<open>string\<close> (a list of 8-bit \<open>char\<close>).
  Go's \<^verbatim>\<open>int64\<close>, and \<^verbatim>\<open>int\<close> on a 64-bit platform, are 64-bit two's complement,
  modelled as \<open>64 word\<close> and read with \<open>sint\<close>.
\<close>

subsection \<open>Constants\<close>

type_synonym int64 = "64 word"

definition DefaultERPEndpoint :: string where
  "DefaultERPEndpoint = ''https://httpbin.org/post''"

definition MaxRetries :: nat where
  "MaxRetries = 3"

text \<open>\<^verbatim>\<open>time.Duration\<close> is an \<^verbatim>\<open>int64\<close> count of nanoseconds; \<^verbatim>\<open>RetryDelay = 2 * time.Second\<close>.\<close>

definition RetryDelay :: int64 where
  "RetryDelay = 2 * 1000000000"

definition SOAPAction :: string where
  "SOAPAction = ''http://tempuri.org/CreateOrder''"

subsection \<open>Data model\<close>

text \<open>
  Each Go struct is a record. Go allows the same field name in several structs; here the
  fields of the inbound structs carry a prefix (\<open>c_\<close> Customer, \<open>li_\<close> LineItem,
  \<open>a_\<close> Address, \<open>s_\<close> ShopifyOrder) and the fields of the ERP structs keep the
  source's names.
\<close>

record Customer =
  c_ID :: int64
  c_Email :: string
  c_FirstName :: string
  c_LastName :: string
  c_Phone :: string

record LineItem =
  li_ID :: int64
  li_ProductID :: int64
  li_VariantID :: int64
  li_Title :: string
  li_Name :: string
  li_Quantity :: int64
  li_Price :: string
  li_SKU :: string
  li_VariantTitle :: string
  li_FulfillmentService :: string

record Address =
  a_FirstName :: string
  a_LastName :: string
  a_Company :: string
  a_Address1 :: string
  a_Address2 :: string
  a_City :: string
  a_Province :: string
  a_Country :: string
  a_Zip :: string
  a_Phone :: string
  a_ProvinceCode :: string
  a_CountryCode :: string

record ShopifyOrder =
  s_ID :: int64
  s_OrderNumber :: int64
  s_Email :: string
  s_CreatedAt :: string
  s_UpdatedAt :: string
  s_TotalPrice :: string
  s_SubtotalPrice :: string
  s_TotalTax :: string
  s_Currency :: string
  s_FinancialStatus :: string
  s_FulfillmentStatus :: string
  s_Customer :: Customer
  s_LineItems :: "LineItem list"
  s_ShippingAddress :: Address
  s_BillingAddress :: Address

record ERPItem =
  SKU :: string
  ProductName :: string
  Quantity :: int64
  UnitPrice :: string
  VariantTitle :: string

record ERPAddress =
  Name :: string
  Company :: string
  AddressLine1 :: string
  AddressLine2 :: string
  City :: string
  State :: string
  PostalCode :: string
  Country :: string
  Phone :: string

record ERPOrder =
  OrderID :: string
  OrderNumber :: string
  CustomerEmail :: string
  CustomerName :: string
  CustomerPhone :: string
  OrderDate :: string
  TotalAmount :: string
  SubtotalAmount :: string
  TaxAmount :: string
  Currency :: string
  PaymentStatus :: string
  FulfillmentStatus :: string
  Items :: "ERPItem list"
  ShippingAddress :: ERPAddress
  BillingAddress :: ERPAddress
  Timestamp :: string

text \<open>
  The zero values of the inbound structs: what \<^verbatim>\<open>json.Unmarshal\<close> leaves in a field the
  payload does not mention (\<^verbatim>\<open>var shopifyOrder ShopifyOrder\<close> in \<^verbatim>\<open>handleWebhook\<close>).
  A nil slice ranges like the empty one.
\<close>

definition zeroCustomer :: Customer where
  "zeroCustomer = \<lparr>c_ID = 0, c_Email = [], c_FirstName = [], c_LastName = [], c_Phone = []\<rparr>"

definition zeroAddress :: Address where
  "zeroAddress = \<lparr>a_FirstName = [], a_LastName = [], a_Company = [], a_Address1 = [],
     a_Address2 = [], a_City = [], a_Province = [], a_Country = [], a_Zip = [], a_Phone = [],
     a_ProvinceCode = [], a_CountryCode = []\<rparr>"

definition zeroShopifyOrder :: ShopifyOrder where
  "zeroShopifyOrder = \<lparr>s_ID = 0, s_OrderNumber = 0, s_Email = [], s_CreatedAt = [],
     s_UpdatedAt = [], s_TotalPrice = [], s_SubtotalPrice = [], s_TotalTax = [],
     s_Currency = [], s_FinancialStatus = [], s_FulfillmentStatus = [],
     s_Customer = zeroCustomer, s_LineItems = [],
     s_ShippingAddress = zeroAddress, s_BillingAddress = zeroAddress\<rparr>"

text \<open>The zero \<^verbatim>\<open>ERPItem\<close>, with which \<^verbatim>\<open>make([]ERPItem, n)\<close> fills the new slice.\<close>

definition zeroERPItem :: ERPItem where
  "zeroERPItem = \<lparr>SKU = [], ProductName = [], Quantity = 0, UnitPrice = [], VariantTitle = []\<rparr>"

subsection \<open>Formatting and escaping\<close>

text \<open>
  \<^verbatim>\<open>fmt.Sprintf("%d", n)\<close>: the decimal digits of a signed integer, with a leading minus
  sign for a negative one.
\<close>

fun dec_nat :: "nat \<Rightarrow> string" where
  "dec_nat n =
     (if n < 10 then [''0123456789'' ! n]
      else dec_nat (n div 10) @ [''0123456789'' ! (n mod 10)])"

declare dec_nat.simps [simp del]

definition fmt_d :: "int \<Rightarrow> string" where
  "fmt_d i = (if i < 0 then CHR ''-'' # dec_nat (nat (- i)) else dec_nat (nat i))"

text \<open>
  \<^verbatim>\<open>html.EscapeString\<close> of Go's standard library replaces exactly five bytes, through
  \<^verbatim>\<open>strings.NewReplacer("&", "&amp;", "'", "&#39;", "<", "&lt;", ">", "&gt;", `"`, "&#34;")\<close>,
  and copies every other byte.
\<close>

definition htmlEscaper :: "char \<Rightarrow> string" where
  "htmlEscaper c =
     (if c = CHR ''&'' then ''&amp;''
      else if c = CHR 0x27 then ''&#39;''
      else if c = CHR ''<'' then ''&lt;''
      else if c = CHR ''>'' then ''&gt;''
      else if c = CHR 0x22 then ''&#34;''
      else [c])"

primrec html_EscapeString :: "string \<Rightarrow> string" where
  "html_EscapeString [] = []"
| "html_EscapeString (c # cs) = htmlEscaper c @ html_EscapeString cs"

definition xmlEscape :: "string \<Rightarrow> string" where
  "xmlEscape s = html_EscapeString s"

subsection \<open>createSOAPEnvelope\<close>

text \<open>
  The function is three statements: the assignment of the opening text with the order
  and address fields (lines 288 to 329), the loop that appends one block per item
  (lines 332 to 341), and the append of the closing text with the timestamp (lines 343
  to 349). Each is a definition; each literal below is one line of the Go raw strings.
\<close>

definition soapEnvelope_open :: "ERPOrder \<Rightarrow> string" where
  \<open>soapEnvelope_open erpOrder =
     ''<?xml version="1.0" encoding="utf-8"?>\<newline>'' @
     ''<soap:Envelope xmlns:soap="http://schemas.xmlsoap.org/soap/envelope/" \<newline>'' @
     ''               xmlns:tem="http://tempuri.org/">\<newline>'' @
     ''  <soap:Header/>\<newline>'' @
     ''  <soap:Body>\<newline>'' @
     ''    <tem:CreateOrder>\<newline>'' @
     ''      <tem:order>\<newline>'' @
     ''        <tem:OrderID>'' @
     xmlEscape (OrderID erpOrder) @
     ''</tem:OrderID>\<newline>'' @
     ''        <tem:OrderNumber>'' @
     xmlEscape (OrderNumber erpOrder) @
     ''</tem:OrderNumber>\<newline>'' @
     ''        <tem:CustomerEmail>'' @
     xmlEscape (CustomerEmail erpOrder) @
     ''</tem:CustomerEmail>\<newline>'' @
     ''        <tem:CustomerName>'' @
     xmlEscape (CustomerName erpOrder) @
     ''</tem:CustomerName>\<newline>'' @
     ''        <tem:CustomerPhone>'' @
     xmlEscape (CustomerPhone erpOrder) @
     ''</tem:CustomerPhone>\<newline>'' @
     ''        <tem:OrderDate>'' @
     xmlEscape (OrderDate erpOrder) @
     ''</tem:OrderDate>\<newline>'' @
     ''        <tem:TotalAmount>'' @
     xmlEscape (TotalAmount erpOrder) @
     ''</tem:TotalAmount>\<newline>'' @
     ''        <tem:SubtotalAmount>'' @
     xmlEscape (SubtotalAmount erpOrder) @
     ''</tem:SubtotalAmount>\<newline>'' @
     ''        <tem:TaxAmount>'' @
     xmlEscape (TaxAmount erpOrder) @
     ''</tem:TaxAmount>\<newline>'' @
     ''        <tem:Currency>'' @
     xmlEscape (Currency erpOrder) @
     ''</tem:Currency>\<newline>'' @
     ''        <tem:PaymentStatus>'' @
     xmlEscape (PaymentStatus erpOrder) @
     ''</tem:PaymentStatus>\<newline>'' @
     ''        <tem:FulfillmentStatus>'' @
     xmlEscape (FulfillmentStatus erpOrder) @
     ''</tem:FulfillmentStatus>\<newline>'' @
     ''        <tem:ShippingAddress>\<newline>'' @
     ''          <tem:Name>'' @
     xmlEscape (Name (ShippingAddress erpOrder)) @
     ''</tem:Name>\<newline>'' @
     ''          <tem:Company>'' @
     xmlEscape (Company (ShippingAddress erpOrder)) @
     ''</tem:Company>\<newline>'' @
     ''          <tem:AddressLine1>'' @
     xmlEscape (AddressLine1 (ShippingAddress erpOrder)) @
     ''</tem:AddressLine1>\<newline>'' @
     ''          <tem:AddressLine2>'' @
     xmlEscape (AddressLine2 (ShippingAddress erpOrder)) @
     ''</tem:AddressLine2>\<newline>'' @
     ''          <tem:City>'' @
     xmlEscape (City (ShippingAddress erpOrder)) @
     ''</tem:City>\<newline>'' @
     ''          <tem:State>'' @
     xmlEscape (State (ShippingAddress erpOrder)) @
     ''</tem:State>\<newline>'' @
     ''          <tem:PostalCode>'' @
     xmlEscape (PostalCode (ShippingAddress erpOrder)) @
     ''</tem:PostalCode>\<newline>'' @
     ''          <tem:Country>'' @
     xmlEscape (Country (ShippingAddress erpOrder)) @
     ''</tem:Country>\<newline>'' @
     ''          <tem:Phone>'' @
     xmlEscape (Phone (ShippingAddress erpOrder)) @
     ''</tem:Phone>\<newline>'' @
     ''        </tem:ShippingAddress>\<newline>'' @
     ''        <tem:BillingAddress>\<newline>'' @
     ''          <tem:Name>'' @
     xmlEscape (Name (BillingAddress erpOrder)) @
     ''</tem:Name>\<newline>'' @
     ''          <tem:Company>'' @
     xmlEscape (Company (BillingAddress erpOrder)) @
     ''</tem:Company>\<newline>'' @
     ''          <tem:AddressLine1>'' @
     xmlEscape (AddressLine1 (BillingAddress erpOrder)) @
     ''</tem:AddressLine1>\<newline>'' @
     ''          <tem:AddressLine2>'' @
     xmlEscape (AddressLine2 (BillingAddress erpOrder)) @
     ''</tem:AddressLine2>\<newline>'' @
     ''          <tem:City>'' @
     xmlEscape (City (BillingAddress erpOrder)) @
     ''</tem:City>\<newline>'' @
     ''          <tem:State>'' @
     xmlEscape (State (BillingAddress erpOrder)) @
     ''</tem:State>\<newline>'' @
     ''          <tem:PostalCode>'' @
     xmlEscape (PostalCode (BillingAddress erpOrder)) @
     ''</tem:PostalCode>\<newline>'' @
     ''          <tem:Country>'' @
     xmlEscape (Country (BillingAddress erpOrder)) @
     ''</tem:Country>\<newline>'' @
     ''          <tem:Phone>'' @
     xmlEscape (Phone (BillingAddress erpOrder)) @
     ''</tem:Phone>\<newline>'' @
     ''        </tem:BillingAddress>\<newline>'' @
     ''        <tem:Items>''\<close>

definition soapEnvelope_item :: "ERPItem \<Rightarrow> string" where
  \<open>soapEnvelope_item item =
     ''\<newline>'' @
     ''          <tem:Item>\<newline>'' @
     ''            <tem:SKU>'' @
     xmlEscape (SKU item) @
     ''</tem:SKU>\<newline>'' @
     ''            <tem:ProductName>'' @
     xmlEscape (ProductName item) @
     ''</tem:ProductName>\<newline>'' @
     ''            <tem:Quantity>'' @
     fmt_d (sint (Quantity item)) @
     ''</tem:Quantity>\<newline>'' @
     ''            <tem:UnitPrice>'' @
     xmlEscape (UnitPrice item) @
     ''</tem:UnitPrice>\<newline>'' @
     ''            <tem:VariantTitle>'' @
     xmlEscape (VariantTitle item) @
     ''</tem:VariantTitle>\<newline>'' @
     ''          </tem:Item>''\<close>

definition soapEnvelope_close :: "ERPOrder \<Rightarrow> string" where
  \<open>soapEnvelope_close erpOrder =
     ''\<newline>'' @
     ''        </tem:Items>\<newline>'' @
     ''        <tem:Timestamp>'' @
     xmlEscape (Timestamp erpOrder) @
     ''</tem:Timestamp>\<newline>'' @
     ''      </tem:order>\<newline>'' @
     ''    </tem:CreateOrder>\<newline>'' @
     ''  </soap:Body>\<newline>'' @
     ''</soap:Envelope>''\<close>

definition createSOAPEnvelope :: "ERPOrder \<Rightarrow> string" where
  "createSOAPEnvelope erpOrder =
     (let soapEnvelope = soapEnvelope_open erpOrder;
          soapEnvelope = foldl (\<lambda>soapEnvelope item. soapEnvelope @ soapEnvelope_item item)
                           soapEnvelope (Items erpOrder);
          soapEnvelope = soapEnvelope @ soapEnvelope_close erpOrder
      in soapEnvelope)"

subsection \<open>transformOrder\<close>

text \<open>
  The loop \<^verbatim>\<open>for i, item := range shopifyOrder.LineItems { items[i] = ERPItem{...} }\<close>:
  \<open>i\<close> is the index of the item at the head of the list still to visit. The slice
  \<open>items\<close> was made with the length of \<open>LineItems\<close>, so no store is out of range.
\<close>

fun transformItems :: "nat \<Rightarrow> LineItem list \<Rightarrow> ERPItem list \<Rightarrow> ERPItem list" where
  "transformItems i [] items = items"
| "transformItems i (item # rest) items =
     transformItems (Suc i) rest
       (items[i := \<lparr>SKU = li_SKU item,
                    ProductName = li_Title item,
                    Quantity = li_Quantity item,
                    UnitPrice = li_Price item,
                    VariantTitle = li_VariantTitle item\<rparr>])"

text \<open>
  \<open>now\<close> is the clock reading \<^verbatim>\<open>time.Now().UTC().Format(time.RFC3339)\<close> at the call, the
  only input of the function besides the order. \<^verbatim>\<open>fmt.Sprintf("%s %s", a, b)\<close> is
  \<open>a @ '' '' @ b\<close>.
\<close>

definition transformOrder :: "string \<Rightarrow> ShopifyOrder \<Rightarrow> ERPOrder" where
  "transformOrder now shopifyOrder =
     (let items = replicate (length (s_LineItems shopifyOrder)) zeroERPItem;
          items = transformItems 0 (s_LineItems shopifyOrder) items;
          shippingAddr = \<lparr>
            Name = a_FirstName (s_ShippingAddress shopifyOrder) @ '' '' @
                   a_LastName (s_ShippingAddress shopifyOrder),
            Company = a_Company (s_ShippingAddress shopifyOrder),
            AddressLine1 = a_Address1 (s_ShippingAddress shopifyOrder),
            AddressLine2 = a_Address2 (s_ShippingAddress shopifyOrder),
            City = a_City (s_ShippingAddress shopifyOrder),
            State = a_Province (s_ShippingAddress shopifyOrder),
            PostalCode = a_Zip (s_ShippingAddress shopifyOrder),
            Country = a_Country (s_ShippingAddress shopifyOrder),
            Phone = a_Phone (s_ShippingAddress shopifyOrder)\<rparr>;
          billingAddr = \<lparr>
            Name = a_FirstName (s_BillingAddress shopifyOrder) @ '' '' @
                   a_LastName (s_BillingAddress shopifyOrder),
            Company = a_Company (s_BillingAddress shopifyOrder),
            AddressLine1 = a_Address1 (s_BillingAddress shopifyOrder),
            AddressLine2 = a_Address2 (s_BillingAddress shopifyOrder),
            City = a_City (s_BillingAddress shopifyOrder),
            State = a_Province (s_BillingAddress shopifyOrder),
            PostalCode = a_Zip (s_BillingAddress shopifyOrder),
            Country = a_Country (s_BillingAddress shopifyOrder),
            Phone = a_Phone (s_BillingAddress shopifyOrder)\<rparr>
      in \<lparr>OrderID = fmt_d (sint (s_ID shopifyOrder)),
          OrderNumber = fmt_d (sint (s_OrderNumber shopifyOrder)),
          CustomerEmail = s_Email shopifyOrder,
          CustomerName = c_FirstName (s_Customer shopifyOrder) @ '' '' @
                         c_LastName (s_Customer shopifyOrder),
          CustomerPhone = c_Phone (s_Customer shopifyOrder),
          OrderDate = s_CreatedAt shopifyOrder,
          TotalAmount = s_TotalPrice shopifyOrder,
          SubtotalAmount = s_SubtotalPrice shopifyOrder,
          TaxAmount = s_TotalTax shopifyOrder,
          Currency = s_Currency shopifyOrder,
          PaymentStatus = s_FinancialStatus shopifyOrder,
          FulfillmentStatus = s_FulfillmentStatus shopifyOrder,
          Items = items,
          ShippingAddress = shippingAddr,
          BillingAddress = billingAddr,
          Timestamp = now\<rparr>)"

subsection \<open>Errors, the outside world and the effects of a run\<close>

text \<open>
  A Go \<^verbatim>\<open>error\<close> is its message and the error it wraps, if any. \<^verbatim>\<open>fmt.Errorf\<close> with a
  final \<^verbatim>\<open>%w\<close> appends the wrapped error's message and keeps the error for
  \<^verbatim>\<open>Unwrap\<close>; without \<^verbatim>\<open>%w\<close> it wraps nothing.
\<close>

datatype go_error = GoError (message: string) (unwrap: "go_error option")

definition Errorf_w :: "string \<Rightarrow> go_error \<Rightarrow> go_error" where
  "Errorf_w prefix err = GoError (prefix @ message err) (Some err)"

definition Errorf :: "string \<Rightarrow> go_error" where
  "Errorf msg = GoError msg None"

type_synonym header = "(string \<times> string) list"

text \<open>
  The outcome of \<^verbatim>\<open>s.httpClient.Do(req)\<close> followed by \<^verbatim>\<open>io.ReadAll(resp.Body)\<close>, whose
  own error the code drops: a transport error, or a response with its status code, its
  header and the body that was read.
\<close>

datatype do_result =
    DoError go_error
  | DoResponse int64 header string

text \<open>
  What \<^verbatim>\<open>sendToERP\<close> reads from outside: the environment (\<^verbatim>\<open>os.Getenv\<close> gives the
  empty string for an unset variable), whether \<^verbatim>\<open>http.NewRequest\<close> accepts the endpoint
  (\<open>None\<close>) or returns an error, and the outcome of the \<open>k\<close>-th call of \<^verbatim>\<open>Do\<close> in
  the run.
\<close>

record world =
  getenv :: "string \<Rightarrow> string"
  newRequest :: "string \<Rightarrow> go_error option"
  httpDo :: "nat \<Rightarrow> do_result"

text \<open>
  The effects of a run, in the order they happen: the two audit-log calls with their
  arguments, the network call of an attempt, and \<^verbatim>\<open>time.Sleep\<close> with its duration.
  The console lines of \<^verbatim>\<open>log.Printf\<close> are left out.
\<close>

datatype effect =
    LogOutgoingSOAP string string header string string
  | HttpDo nat
  | LogSOAPResponse string int64 header string string "go_error option"
  | Sleep int64

text \<open>
  The header after the three \<^verbatim>\<open>req.Header.Set\<close> calls, in the order of the calls.
  \<^verbatim>\<open>Set\<close> stores each key in its canonical form (first letter and each letter after a
  hyphen in upper case, the rest in lower case), so the key written \<^verbatim>\<open>SOAPAction\<close> is
  stored, logged and sent as \<^verbatim>\<open>Soapaction\<close>; the other two keys are canonical as written.
\<close>

definition requestHeader :: "string \<Rightarrow> header" where
  "requestHeader soapAction =
     [(''Content-Type'', ''text/xml; charset=utf-8''),
      (''Soapaction'', [CHR 0x22] @ soapAction @ [CHR 0x22]),
      (''User-Agent'', ''Shopify-ERP-Middleware/1.0'')]"

text \<open>The test of line 467, \<^verbatim>\<open>resp.StatusCode >= 200 && resp.StatusCode < 300\<close>.\<close>

definition statusOK :: "int64 \<Rightarrow> bool" where
  "statusOK status = (200 \<le> sint status \<and> sint status < 300)"

subsection \<open>sendToERP\<close>

text \<open>
  The loop \<^verbatim>\<open>for attempt := 1; attempt <= MaxRetries; attempt++\<close>, with the statement
  after it as the \<open>else\<close> branch. \<open>tr\<close> is the trace of effects so far; the result is
  the returned error (\<open>None\<close> for \<^verbatim>\<open>nil\<close>) and the final trace.
\<close>

function sendLoop ::
  "world \<Rightarrow> string \<Rightarrow> string \<Rightarrow> string \<Rightarrow> ERPOrder \<Rightarrow> string \<Rightarrow> nat \<Rightarrow> effect list
     \<Rightarrow> go_error option \<times> effect list" where
  "sendLoop w erpEndpoint soapAction soapXML erpOrder requestID attempt tr =
     (if attempt \<le> MaxRetries then
        (case newRequest w erpEndpoint of
           Some err \<Rightarrow> (Some (Errorf_w ''failed to create request: '' err), tr)
         | None \<Rightarrow>
            (let tr = tr @ [LogOutgoingSOAP requestID erpEndpoint (requestHeader soapAction)
                              soapXML (OrderID erpOrder)];
                 tr = tr @ [HttpDo attempt]
             in case httpDo w attempt of
                  DoError err \<Rightarrow>
                    (let tr = tr @ [LogSOAPResponse requestID 0 [] [] (OrderID erpOrder) (Some err)]
                     in if attempt < MaxRetries
                        then sendLoop w erpEndpoint soapAction soapXML erpOrder requestID
                               (Suc attempt) (tr @ [Sleep (RetryDelay * of_nat attempt)])
                        else (Some (Errorf_w (''failed to send request after '' @
                                       fmt_d (int MaxRetries) @ '' attempts: '') err), tr))
                | DoResponse status hdr body \<Rightarrow>
                    (let tr = tr @ [LogSOAPResponse requestID status hdr body (OrderID erpOrder) None]
                     in if statusOK status then (None, tr)
                        else sendLoop w erpEndpoint soapAction soapXML erpOrder requestID
                               (Suc attempt)
                               (if attempt < MaxRetries
                                then tr @ [Sleep (RetryDelay * of_nat attempt)] else tr))))
      else (Some (Errorf (''failed to send order to ERP after '' @
                    fmt_d (int MaxRetries) @ '' attempts'')), tr))"
  by pat_completeness auto
termination
  by (relation "measure (\<lambda>(w, erpEndpoint, soapAction, soapXML, erpOrder, requestID, attempt, tr).
        Suc MaxRetries - attempt)") auto

declare sendLoop.simps [simp del]

text \<open>Lines 416 to 425: the endpoint and the SOAP action, each with its default.\<close>

definition erpEndpoint_of :: "world \<Rightarrow> string" where
  "erpEndpoint_of w =
     (let erpEndpoint = getenv w ''ERP_ENDPOINT''
      in if erpEndpoint = [] then DefaultERPEndpoint else erpEndpoint)"

definition soapAction_of :: "world \<Rightarrow> string" where
  "soapAction_of w =
     (let soapAction = getenv w ''SOAP_ACTION''
      in if soapAction = [] then SOAPAction else soapAction)"

definition sendToERP :: "world \<Rightarrow> ERPOrder \<Rightarrow> string \<Rightarrow> go_error option \<times> effect list" where
  "sendToERP w erpOrder requestID =
     (let erpEndpoint = erpEndpoint_of w;
          soapAction = soapAction_of w;
          soapXML = createSOAPEnvelope erpOrder
      in sendLoop w erpEndpoint soapAction soapXML erpOrder requestID 1 [])"

subsection \<open>Observations on a run\<close>

text \<open>The network calls and the sleeps of a trace, without the log entries.\<close>

definition isTiming :: "effect \<Rightarrow> bool" where
  "isTiming e = (case e of HttpDo k \<Rightarrow> True | Sleep d \<Rightarrow> True | _ \<Rightarrow> False)"

text \<open>An attempt fails when it gets no response, or one whose status is not 2xx.\<close>

definition failedAttempt :: "do_result \<Rightarrow> bool" where
  "failedAttempt r = (case r of DoError err \<Rightarrow> True | DoResponse status hdr body \<Rightarrow> \<not> statusOK status)"

text \<open>
  The attempts and sleeps of a run whose attempts before the \<open>k\<close>-th all failed:
  attempt \<open>j\<close>, then a sleep of \<open>j\<close> times \<open>RetryDelay\<close>.
\<close>

definition failedRounds :: "nat \<Rightarrow> effect list" where
  "failedRounds k = concat (map (\<lambda>j. [HttpDo j, Sleep (RetryDelay * of_nat j)]) [1..<k])"

text \<open>What the last line of the response log says after an attempt.\<close>

definition responseLogged :: "string \<Rightarrow> ERPOrder \<Rightarrow> do_result \<Rightarrow> effect" where
  "responseLogged requestID erpOrder r =
     (case r of
        DoError err \<Rightarrow> LogSOAPResponse requestID 0 [] [] (OrderID erpOrder) (Some err)
      | DoResponse status hdr body \<Rightarrow>
          LogSOAPResponse requestID status hdr body (OrderID erpOrder) None)"

text \<open>The error returned when the last attempt fails too.\<close>

definition exhaustedError :: "do_result \<Rightarrow> go_error" where
  "exhaustedError r =
     (case r of
        DoError err \<Rightarrow>
          GoError (''failed to send request after 3 attempts: '' @ message err) (Some err)
      | DoResponse status hdr body \<Rightarrow>
          GoError ''failed to send order to ERP after 3 attempts'' None)"

subsection \<open>Sample inputs\<close>

text \<open>
  A world with no environment variable set, an endpoint that \<^verbatim>\<open>http.NewRequest\<close>
  accepts and the given outcomes of the calls; and the order of the specification's
  concrete scenario, with only the fields it names, mapped at a fixed clock reading.
\<close>

definition stubWorld :: "(nat \<Rightarrow> do_result) \<Rightarrow> world" where
  "stubWorld f = \<lparr>getenv = (\<lambda>name. []), newRequest = (\<lambda>url. None), httpDo = f\<rparr>"

text \<open>
  The world whose calls get the outcomes of the list, one after the other, and the given
  outcome from then on.
\<close>

definition scriptedWorld :: "do_result list \<Rightarrow> do_result \<Rightarrow> world" where
  "scriptedWorld rs r =
     stubWorld (\<lambda>k. if 1 \<le> k \<and> k \<le> length rs then rs ! (k - 1) else r)"

definition sampleOrder :: ShopifyOrder where
  "sampleOrder = zeroShopifyOrder\<lparr>s_ID := 12345, s_OrderNumber := 1001,
     s_TotalPrice := ''150.00'',
     s_LineItems := [\<lparr>li_ID = 0, li_ProductID = 0, li_VariantID = 0, li_Title = [],
       li_Name = [], li_Quantity = 2, li_Price = ''65.00'', li_SKU = ''TEST-SKU-001'',
       li_VariantTitle = [], li_FulfillmentService = []\<rparr>]\<rparr>"

definition sampleERPOrder :: ERPOrder where
  "sampleERPOrder = transformOrder ''2024-01-15T10:30:00Z'' sampleOrder"

text \<open>
  A name with a two-byte character (e with diaeresis) and three of the five bytes that are
  escaped.
\<close>

definition sampleText :: string where
  "sampleText = ''Zo'' @ [CHR 0xC3, CHR 0xAB] @ '' & <zoe@example.org>''"


subsection \<open>The reader of the wire format\<close>

text \<open>
  Modelled from the spec: the un-escaping done by a conforming parser of the outbound
  wire format, which is the remote endpoint's and not part of this repository. The
  envelope declares XML 1.0 in UTF-8, so the reader is modelled on the XML 1.0
  recommendation, for the character data between a start tag and an end tag:
  \<^item> the bytes must be well-formed UTF-8 and every character one that the production
    \<^verbatim>\<open>Char\<close> allows (tab, line feed, carriage return, U+0020 to U+D7FF, U+E000 to
    U+FFFD, U+10000 to U+10FFFF); anything else is a fatal error;
  \<^item> line ends are normalised before parsing: a carriage return followed by a line feed,
    and a carriage return alone, each become one line feed;
  \<^item> in the text a \<^verbatim>\<open><\<close> or the sequence \<^verbatim>\<open>]]>\<close> is an error; \<^verbatim>\<open>&\<close> starts a decimal or
    hexadecimal character reference to an allowed character, or one of the five
    predefined entities; any other use of \<^verbatim>\<open>&\<close> is an error.
  The result is \<open>None\<close> for an error and the text read otherwise.
\<close>

definition byte :: "char \<Rightarrow> nat" where
  "byte c = of_char c"

text \<open>Well-formed UTF-8 sequences of one to four bytes, for the allowed characters only.\<close>

definition continuation :: "char \<Rightarrow> bool" where
  "continuation c = (0x80 \<le> byte c \<and> byte c \<le> 0xBF)"

definition oneByte :: "char \<Rightarrow> bool" where
  "oneByte a = (byte a = 0x09 \<or> byte a = 0x0A \<or> byte a = 0x0D \<or> 0x20 \<le> byte a)"

definition twoBytes :: "char \<Rightarrow> char \<Rightarrow> bool" where
  "twoBytes a b = (0xC2 \<le> byte a \<and> byte a \<le> 0xDF \<and> continuation b)"

definition threeBytes :: "char \<Rightarrow> char \<Rightarrow> char \<Rightarrow> bool" where
  "threeBytes a b c =
     ((byte a = 0xE0 \<and> 0xA0 \<le> byte b \<and> byte b \<le> 0xBF \<or>
       0xE1 \<le> byte a \<and> byte a \<le> 0xEC \<and> continuation b \<or>
       byte a = 0xED \<and> 0x80 \<le> byte b \<and> byte b \<le> 0x9F \<or>
       0xEE \<le> byte a \<and> byte a \<le> 0xEF \<and> continuation b) \<and>
      continuation c \<and>
      \<not> (byte a = 0xEF \<and> byte b = 0xBF \<and> 0xBE \<le> byte c))"

definition fourBytes :: "char \<Rightarrow> char \<Rightarrow> char \<Rightarrow> char \<Rightarrow> bool" where
  "fourBytes a b c d =
     ((byte a = 0xF0 \<and> 0x90 \<le> byte b \<and> byte b \<le> 0xBF \<or>
       0xF1 \<le> byte a \<and> byte a \<le> 0xF3 \<and> continuation b \<or>
       byte a = 0xF4 \<and> 0x80 \<le> byte b \<and> byte b \<le> 0x8F) \<and>
      continuation c \<and> continuation d)"

fun xmlChars :: "string \<Rightarrow> bool" where
  "xmlChars [] = True"
| "xmlChars (a # s) =
     (if byte a < 0x80 then oneByte a \<and> xmlChars s
      else (case s of
              [] \<Rightarrow> False
            | b # s1 \<Rightarrow>
                (if twoBytes a b then xmlChars s1
                 else (case s1 of
                         [] \<Rightarrow> False
                       | c # s2 \<Rightarrow>
                           (if threeBytes a b c then xmlChars s2
                            else (case s2 of
                                    [] \<Rightarrow> False
                                  | d # s3 \<Rightarrow> fourBytes a b c d \<and> xmlChars s3))))))"

text \<open>End-of-line handling (section 2.11 of the recommendation).\<close>

fun lineEnds :: "string \<Rightarrow> string" where
  "lineEnds [] = []"
| "lineEnds [c] = [if c = CHR 0x0D then CHR 0x0A else c]"
| "lineEnds (c # d # s) =
     (if c = CHR 0x0D then
        (if d = CHR 0x0A then CHR 0x0A # lineEnds s else CHR 0x0A # lineEnds (d # s))
      else c # lineEnds (d # s))"

text \<open>Whether the sequence \<^verbatim>\<open>]]>\<close> occurs.\<close>

fun cdEnd :: "string \<Rightarrow> bool" where
  "cdEnd (a # b # c # s) =
     (a = CHR '']'' \<and> b = CHR '']'' \<and> c = CHR ''>'' \<or> cdEnd (b # c # s))"
| "cdEnd s = False"

text \<open>
  Character references: the digits up to the semicolon name a code point, which must be
  an allowed character and is read as its UTF-8 bytes.
\<close>

definition xmlCodePoint :: "nat \<Rightarrow> bool" where
  "xmlCodePoint n =
     (n = 0x9 \<or> n = 0xA \<or> n = 0xD \<or> 0x20 \<le> n \<and> n \<le> 0xD7FF \<or>
      0xE000 \<le> n \<and> n \<le> 0xFFFD \<or> 0x10000 \<le> n \<and> n \<le> 0x10FFFF)"

definition utf8 :: "nat \<Rightarrow> string" where
  "utf8 n =
     (if n < 0x80 then [char_of n]
      else if n < 0x800 then [char_of (0xC0 + n div 0x40), char_of (0x80 + n mod 0x40)]
      else if n < 0x10000 then
        [char_of (0xE0 + n div 0x1000), char_of (0x80 + n div 0x40 mod 0x40),
         char_of (0x80 + n mod 0x40)]
      else
        [char_of (0xF0 + n div 0x40000), char_of (0x80 + n div 0x1000 mod 0x40),
         char_of (0x80 + n div 0x40 mod 0x40), char_of (0x80 + n mod 0x40)])"

definition digitValue :: "char \<Rightarrow> nat option" where
  "digitValue c =
     (if 0x30 \<le> byte c \<and> byte c \<le> 0x39 then Some (byte c - 0x30)
      else if 0x41 \<le> byte c \<and> byte c \<le> 0x46 then Some (byte c - 0x37)
      else if 0x61 \<le> byte c \<and> byte c \<le> 0x66 then Some (byte c - 0x57)
      else None)"

definition isDecDigit :: "char \<Rightarrow> bool" where
  "isDecDigit c = (0x30 \<le> byte c \<and> byte c \<le> 0x39)"

definition isHexDigit :: "char \<Rightarrow> bool" where
  "isHexDigit c = (digitValue c \<noteq> None)"

definition digitsValue :: "nat \<Rightarrow> string \<Rightarrow> nat" where
  "digitsValue base ds =
     foldl (\<lambda>n d. case digitValue d of Some v \<Rightarrow> n * base + v | None \<Rightarrow> n) 0 ds"

fun stripPrefix :: "string \<Rightarrow> string \<Rightarrow> string option" where
  "stripPrefix [] s = Some s"
| "stripPrefix (p # ps) [] = None"
| "stripPrefix (p # ps) (c # cs) = (if p = c then stripPrefix ps cs else None)"

definition charRef :: "nat \<Rightarrow> (char \<Rightarrow> bool) \<Rightarrow> string \<Rightarrow> (string \<times> string) option" where
  "charRef base isDigit s =
     (let ds = takeWhile isDigit s
      in if ds = [] then None
         else (case stripPrefix '';'' (dropWhile isDigit s) of
                 None \<Rightarrow> None
               | Some rest \<Rightarrow>
                   (let n = digitsValue base ds
                    in if xmlCodePoint n then Some (utf8 n, rest) else None)))"

text \<open>The five predefined entities; no other entity is declared.\<close>

fun entityRef :: "(string \<times> string) list \<Rightarrow> string \<Rightarrow> (string \<times> string) option" where
  "entityRef [] s = None"
| "entityRef ((name, v) # table) s =
     (case stripPrefix name s of
        Some rest \<Rightarrow> Some (v, rest)
      | None \<Rightarrow> entityRef table s)"

definition predefined :: "(string \<times> string) list" where
  "predefined =
     [(''amp;'', ''&''), (''lt;'', ''<''), (''gt;'', ''>''),
      (''quot;'', [CHR 0x22]), (''apos;'', [CHR 0x27])]"

definition reference :: "string \<Rightarrow> (string \<times> string) option" where
  "reference s =
     (case stripPrefix ''#x'' s of
        Some r \<Rightarrow> charRef 16 isHexDigit r
      | None \<Rightarrow>
          (case stripPrefix ''#'' s of
             Some r \<Rightarrow> charRef 10 isDecDigit r
           | None \<Rightarrow> entityRef predefined s))"

lemma stripPrefix_length: "stripPrefix p s = Some rest \<Longrightarrow> length rest \<le> length s"
  by (induction p s rule: stripPrefix.induct) (auto split: if_splits)

lemma entityRef_length: "entityRef table s = Some (v, rest) \<Longrightarrow> length rest \<le> length s"
  by (induction table) (auto split: option.splits dest: stripPrefix_length)

lemma charRef_length: "charRef base isDigit s = Some (v, rest) \<Longrightarrow> length rest \<le> length s"
proof -
  assume a: "charRef base isDigit s = Some (v, rest)"
  then have "stripPrefix '';'' (dropWhile isDigit s) = Some rest"
    by (auto simp: charRef_def Let_def split: if_splits option.splits)
  then have "length rest \<le> length (dropWhile isDigit s)"
    by (rule stripPrefix_length)
  also have "\<dots> \<le> length s"
    by (rule length_dropWhile_le)
  finally show ?thesis .
qed

lemma reference_length: "reference s = Some (v, rest) \<Longrightarrow> length rest \<le> length s"
  unfolding reference_def
  by (auto split: option.splits
      dest!: charRef_length entityRef_length stripPrefix_length)

text \<open>The text with every reference replaced.\<close>

function charData :: "string \<Rightarrow> string option" where
  "charData [] = Some []"
| "charData (c # cs) =
     (if c = CHR ''&'' then
        (case reference cs of
           None \<Rightarrow> None
         | Some (v, rest) \<Rightarrow> map_option ((@) v) (charData rest))
      else if c = CHR ''<'' then None
      else map_option ((#) c) (charData cs))"
  by pat_completeness auto
termination
  by (relation "measure length") (auto dest: reference_length)

declare charData.simps(2) [simp del]

text \<open>
  Modelled from the spec: the un-escaping itself, in the order of the recommendation:
  check the characters, normalise the line ends, refuse \<^verbatim>\<open>]]>\<close>, replace the references.
\<close>

definition xmlUnescape :: "string \<Rightarrow> string option" where
  "xmlUnescape s =
     (if xmlChars s then
        (let t = lineEnds s in if cdEnd t then None else charData t)
      else None)"

text \<open>
  Modelled from the spec: how the reader finds the scalar values in an envelope. An
  element that holds text only is a start tag, the text, and the end tag of the same
  name; \<open>textElements\<close> lists these elements of a document in order, each with its name
  and its text as written (still escaped). \<open>opened\<close> is the tag read last, \<open>acc\<close>
  the text since that tag, and \<open>tag\<close> the part of a tag read so far, when inside one.
\<close>

fun scanElements :: "string \<Rightarrow> string \<Rightarrow> string option \<Rightarrow> string \<Rightarrow> (string \<times> string) list" where
  "scanElements opened acc tag [] = []"
| "scanElements opened acc None (c # cs) =
     (if c = CHR ''<'' then scanElements opened acc (Some []) cs
      else scanElements opened (acc @ [c]) None cs)"
| "scanElements opened acc (Some name) (c # cs) =
     (if c = CHR ''>'' then
        (if name = CHR ''/'' # opened then [(opened, acc)] else []) @
        scanElements name [] None cs
      else scanElements opened acc (Some (name @ [c])) cs)"

declare scanElements.simps [simp del]

definition textElements :: "string \<Rightarrow> (string \<times> string) list" where
  "textElements doc = scanElements [] [] None doc"

text \<open>
  Modelled from the spec: how the reader finds the item blocks. A block is an element
  \<^verbatim>\<open>tem:Item\<close>; \<open>itemBlocks\<close> lists the blocks of a document in order, each as the
  list of the elements with text inside it, with name and text as written. \<open>block\<close>
  is the content of the block being read, when inside one.
\<close>

fun scanBlocks ::
  "string \<Rightarrow> string \<Rightarrow> string option \<Rightarrow> (string \<times> string) list option \<Rightarrow> string
     \<Rightarrow> (string \<times> string) list list" where
  "scanBlocks opened acc tag block [] = []"
| "scanBlocks opened acc None block (c # cs) =
     (if c = CHR ''<'' then scanBlocks opened acc (Some []) block cs
      else scanBlocks opened (acc @ [c]) None block cs)"
| "scanBlocks opened acc (Some name) block (c # cs) =
     (if c = CHR ''>'' then
        (if name = ''tem:Item'' then scanBlocks name [] None (Some []) cs
         else if name = ''/tem:Item'' then
           (case block of None \<Rightarrow> [] | Some b \<Rightarrow> [b]) @ scanBlocks name [] None None cs
         else scanBlocks name [] None
                (if name = CHR ''/'' # opened
                 then map_option (\<lambda>b. b @ [(opened, acc)]) block else block) cs)
      else scanBlocks opened acc (Some (name @ [c])) block cs)"

declare scanBlocks.simps [simp del]

definition itemBlocks :: "string \<Rightarrow> (string \<times> string) list list" where
  "itemBlocks doc = scanBlocks [] [] None None doc"

section \<open>The retry loop\<close>

lemma scriptedWorld_simps [simp]:
  "newRequest (scriptedWorld rs r) url = None"
  "getenv (scriptedWorld rs r) name = []"
  "httpDo (scriptedWorld [] r) k = r"
  "httpDo (scriptedWorld [r1] r) k = (if k = 1 then r1 else r)"
  by (auto simp: scriptedWorld_def stubWorld_def)

lemma fmt_d_MaxRetries: "fmt_d (int MaxRetries) = ''3''"
  by (simp add: fmt_d_def MaxRetries_def dec_nat.simps)

lemma isTiming_simps [simp]:
  "isTiming (HttpDo k)" "isTiming (Sleep d)"
  "\<not> isTiming (LogOutgoingSOAP a b c d' e)" "\<not> isTiming (LogSOAPResponse a s h b' e' f)"
  by (simp_all add: isTiming_def)

lemma sendLoop_past:
  "MaxRetries < attempt \<Longrightarrow>
   sendLoop w ep sa x ord r attempt tr =
     (Some (Errorf ''failed to send order to ERP after 3 attempts''), tr)"
  by (subst sendLoop.simps) (simp add: fmt_d_MaxRetries)

lemma sendLoop_newRequest_fails:
  "attempt \<le> MaxRetries \<Longrightarrow> newRequest w ep = Some err \<Longrightarrow>
   sendLoop w ep sa x ord r attempt tr = (Some (Errorf_w ''failed to create request: '' err), tr)"
  by (subst sendLoop.simps) simp

lemma sendLoop_ok:
  "attempt \<le> MaxRetries \<Longrightarrow> newRequest w ep = None \<Longrightarrow>
   httpDo w attempt = DoResponse s h b \<Longrightarrow> statusOK s \<Longrightarrow>
   sendLoop w ep sa x ord r attempt tr =
     (None, tr @ [LogOutgoingSOAP r ep (requestHeader sa) x (OrderID ord), HttpDo attempt,
                  LogSOAPResponse r s h b (OrderID ord) None])"
  by (subst sendLoop.simps) (simp add: Let_def)

lemma sendLoop_rejected:
  "attempt \<le> MaxRetries \<Longrightarrow> newRequest w ep = None \<Longrightarrow>
   httpDo w attempt = DoResponse s h b \<Longrightarrow> \<not> statusOK s \<Longrightarrow>
   sendLoop w ep sa x ord r attempt tr =
     sendLoop w ep sa x ord r (Suc attempt)
       (tr @ [LogOutgoingSOAP r ep (requestHeader sa) x (OrderID ord), HttpDo attempt,
              LogSOAPResponse r s h b (OrderID ord) None] @
        (if attempt < MaxRetries then [Sleep (RetryDelay * of_nat attempt)] else []))"
  by (subst sendLoop.simps) (simp add: Let_def)

lemma sendLoop_transport_retry:
  "attempt < MaxRetries \<Longrightarrow> newRequest w ep = None \<Longrightarrow>
   httpDo w attempt = DoError err \<Longrightarrow>
   sendLoop w ep sa x ord r attempt tr =
     sendLoop w ep sa x ord r (Suc attempt)
       (tr @ [LogOutgoingSOAP r ep (requestHeader sa) x (OrderID ord), HttpDo attempt,
              LogSOAPResponse r 0 [] [] (OrderID ord) (Some err),
              Sleep (RetryDelay * of_nat attempt)])"
  by (subst sendLoop.simps) (simp add: Let_def)

lemma sendLoop_transport_last:
  "attempt = MaxRetries \<Longrightarrow> newRequest w ep = None \<Longrightarrow>
   httpDo w attempt = DoError err \<Longrightarrow>
   sendLoop w ep sa x ord r attempt tr =
     (Some (Errorf_w ''failed to send request after 3 attempts: '' err),
      tr @ [LogOutgoingSOAP r ep (requestHeader sa) x (OrderID ord), HttpDo attempt,
            LogSOAPResponse r 0 [] [] (OrderID ord) (Some err)])"
  by (subst sendLoop.simps) (simp add: Let_def fmt_d_MaxRetries)


text \<open>One failed attempt that is not the last: the loop goes on, after one sleep.\<close>

lemma sendLoop_failed_timing:
  assumes "attempt < MaxRetries" "newRequest w ep = None" "failedAttempt (httpDo w attempt)"
  shows "\<exists>tr'. sendLoop w ep sa x ord r attempt tr = sendLoop w ep sa x ord r (Suc attempt) tr' \<and>
           filter isTiming tr' =
             filter isTiming tr @ [HttpDo attempt, Sleep (RetryDelay * of_nat attempt)]"
proof (cases "httpDo w attempt")
  case (DoError err)
  have "sendLoop w ep sa x ord r attempt tr =
          sendLoop w ep sa x ord r (Suc attempt)
            (tr @ [LogOutgoingSOAP r ep (requestHeader sa) x (OrderID ord), HttpDo attempt,
                   LogSOAPResponse r 0 [] [] (OrderID ord) (Some err),
                   Sleep (RetryDelay * of_nat attempt)])"
    by (rule sendLoop_transport_retry [OF assms(1,2) DoError])
  moreover have "filter isTiming
            (tr @ [LogOutgoingSOAP r ep (requestHeader sa) x (OrderID ord), HttpDo attempt,
                   LogSOAPResponse r 0 [] [] (OrderID ord) (Some err),
                   Sleep (RetryDelay * of_nat attempt)]) =
          filter isTiming tr @ [HttpDo attempt, Sleep (RetryDelay * of_nat attempt)]"
    by simp
  ultimately show ?thesis by blast
next
  case (DoResponse s h b)
  with assms(3) have no: "\<not> statusOK s" by (simp add: failedAttempt_def)
  from assms(1) have le: "attempt \<le> MaxRetries" by simp
  have "sendLoop w ep sa x ord r attempt tr =
          sendLoop w ep sa x ord r (Suc attempt)
            (tr @ [LogOutgoingSOAP r ep (requestHeader sa) x (OrderID ord), HttpDo attempt,
                   LogSOAPResponse r s h b (OrderID ord) None] @
             (if attempt < MaxRetries then [Sleep (RetryDelay * of_nat attempt)] else []))"
    by (rule sendLoop_rejected [OF le assms(2) DoResponse no])
  moreover have "filter isTiming
            (tr @ [LogOutgoingSOAP r ep (requestHeader sa) x (OrderID ord), HttpDo attempt,
                   LogSOAPResponse r s h b (OrderID ord) None] @
             (if attempt < MaxRetries then [Sleep (RetryDelay * of_nat attempt)] else [])) =
          filter isTiming tr @ [HttpDo attempt, Sleep (RetryDelay * of_nat attempt)]"
    using assms(1) by simp
  ultimately show ?thesis by blast
qed

lemma sendLoop_failed_prefix:
  assumes req: "newRequest w ep = None"
  shows "Suc n \<le> MaxRetries \<Longrightarrow> (\<forall>j. 1 \<le> j \<and> j \<le> n \<longrightarrow> failedAttempt (httpDo w j)) \<Longrightarrow>
         \<exists>tr'. sendLoop w ep sa x ord r 1 [] = sendLoop w ep sa x ord r (Suc n) tr' \<and>
               filter isTiming tr' = failedRounds (Suc n)"
proof (induction n)
  case 0
  have "sendLoop w ep sa x ord r 1 [] = sendLoop w ep sa x ord r (Suc 0) [] \<and>
        filter isTiming [] = failedRounds (Suc 0)"
    by (simp add: failedRounds_def)
  then show ?case by blast
next
  case (Suc n)
  from Suc.prems have "Suc n \<le> MaxRetries"
    and "\<forall>j. 1 \<le> j \<and> j \<le> n \<longrightarrow> failedAttempt (httpDo w j)" by simp_all
  with Suc.IH obtain tr1 where
    t1: "sendLoop w ep sa x ord r 1 [] = sendLoop w ep sa x ord r (Suc n) tr1"
    and f1: "filter isTiming tr1 = failedRounds (Suc n)" by blast
  from Suc.prems have lt: "Suc n < MaxRetries" and fl: "failedAttempt (httpDo w (Suc n))"
    by simp_all
  from sendLoop_failed_timing [OF lt req fl, of sa x ord r tr1] obtain tr2 where
    t2: "sendLoop w ep sa x ord r (Suc n) tr1 = sendLoop w ep sa x ord r (Suc (Suc n)) tr2"
    and f2: "filter isTiming tr2 =
               filter isTiming tr1 @ [HttpDo (Suc n), Sleep (RetryDelay * of_nat (Suc n))]"
    by blast
  have "filter isTiming tr2 = failedRounds (Suc (Suc n))"
    unfolding f2 f1 by (simp add: failedRounds_def)
  with t1 t2 show ?case by metis
qed

lemma sendLoop_failed_before:
  assumes "newRequest w ep = None" "1 \<le> k" "k \<le> MaxRetries"
    and "\<forall>j. 1 \<le> j \<and> j < k \<longrightarrow> failedAttempt (httpDo w j)"
  shows "\<exists>tr'. sendLoop w ep sa x ord r 1 [] = sendLoop w ep sa x ord r k tr' \<and>
               filter isTiming tr' = failedRounds k"
proof -
  from assms(2) obtain n where k: "k = Suc n" by (cases k) simp_all
  from assms(4) have "\<forall>j. 1 \<le> j \<and> j \<le> n \<longrightarrow> failedAttempt (httpDo w j)"
    by (simp add: k)
  with sendLoop_failed_prefix [OF assms(1), of n] assms(3) show ?thesis
    by (simp add: k)
qed

lemma failedRounds_3:
  "failedRounds 3 = [HttpDo 1, Sleep (RetryDelay * 1), HttpDo 2, Sleep (RetryDelay * 2)]"
  by (simp add: failedRounds_def upt_rec)

lemma sendToERP_request_fails:
  "newRequest w (erpEndpoint_of w) = Some err \<Longrightarrow>
   sendToERP w erpOrder requestID = (Some (Errorf_w ''failed to create request: '' err), [])"
  unfolding sendToERP_def Let_def
  by (rule sendLoop_newRequest_fails) (simp_all add: MaxRetries_def)

lemma sendToERP_succeeds_at:
  assumes req: "newRequest w (erpEndpoint_of w) = None"
    and k: "1 \<le> k" "k \<le> MaxRetries"
    and before: "\<forall>j. 1 \<le> j \<and> j < k \<longrightarrow> failedAttempt (httpDo w j)"
    and ok: "httpDo w k = DoResponse s h b" "statusOK s"
  shows "\<exists>tr. sendToERP w erpOrder requestID =
           (None, tr @ [HttpDo k, LogSOAPResponse requestID s h b (OrderID erpOrder) None]) \<and>
         filter isTiming tr = failedRounds k"
proof -
  let ?run = "sendLoop w (erpEndpoint_of w) (soapAction_of w) (createSOAPEnvelope erpOrder)
                erpOrder requestID"
  let ?out = "LogOutgoingSOAP requestID (erpEndpoint_of w) (requestHeader (soapAction_of w))
                (createSOAPEnvelope erpOrder) (OrderID erpOrder)"
  from sendLoop_failed_before [OF req k before] obtain tr where
    t: "?run 1 [] = ?run k tr" and f: "filter isTiming tr = failedRounds k"
    by blast
  have "sendToERP w erpOrder requestID = ?run 1 []"
    by (simp add: sendToERP_def)
  also note t
  also have "?run k tr =
      (None, tr @ [?out, HttpDo k, LogSOAPResponse requestID s h b (OrderID erpOrder) None])"
    by (rule sendLoop_ok [OF k(2) req ok])
  finally have "sendToERP w erpOrder requestID =
      (None, (tr @ [?out]) @ [HttpDo k, LogSOAPResponse requestID s h b (OrderID erpOrder) None])"
    by simp
  moreover have "filter isTiming (tr @ [?out]) = failedRounds k"
    by (simp add: f)
  ultimately show ?thesis by blast
qed

lemma isTiming_responseLogged [simp]: "\<not> isTiming (responseLogged requestID erpOrder r)"
  by (cases r) (simp_all add: responseLogged_def)

lemma sendToERP_exhausted:
  assumes req: "newRequest w (erpEndpoint_of w) = None"
    and failed: "\<forall>j. 1 \<le> j \<and> j \<le> MaxRetries \<longrightarrow> failedAttempt (httpDo w j)"
  shows "\<exists>tr. sendToERP w erpOrder requestID =
           (Some (exhaustedError (httpDo w MaxRetries)),
            tr @ [HttpDo MaxRetries, responseLogged requestID erpOrder (httpDo w MaxRetries)]) \<and>
         filter isTiming tr = failedRounds MaxRetries"
proof -
  let ?run = "sendLoop w (erpEndpoint_of w) (soapAction_of w) (createSOAPEnvelope erpOrder)
                erpOrder requestID"
  let ?out = "LogOutgoingSOAP requestID (erpEndpoint_of w) (requestHeader (soapAction_of w))
                (createSOAPEnvelope erpOrder) (OrderID erpOrder)"
  have k: "1 \<le> MaxRetries" "MaxRetries \<le> MaxRetries" by (simp_all add: MaxRetries_def)
  from failed have before: "\<forall>j. 1 \<le> j \<and> j < MaxRetries \<longrightarrow> failedAttempt (httpDo w j)"
    by simp
  from sendLoop_failed_before [OF req k before] obtain tr where
    t: "?run 1 [] = ?run MaxRetries tr" and f: "filter isTiming tr = failedRounds MaxRetries"
    by blast
  have start: "sendToERP w erpOrder requestID = ?run MaxRetries tr"
    using t by (simp add: sendToERP_def)
  have f': "filter isTiming (tr @ [?out]) = failedRounds MaxRetries"
    by (simp add: f)
  from failed k have fl: "failedAttempt (httpDo w MaxRetries)" by blast
  show ?thesis
  proof (cases "httpDo w MaxRetries")
    case (DoError err)
    have "?run MaxRetries tr =
        (Some (Errorf_w ''failed to send request after 3 attempts: '' err),
         tr @ [?out, HttpDo MaxRetries,
               LogSOAPResponse requestID 0 [] [] (OrderID erpOrder) (Some err)])"
      by (rule sendLoop_transport_last [OF refl req DoError])
    with start have "sendToERP w erpOrder requestID =
        (Some (exhaustedError (httpDo w MaxRetries)),
         (tr @ [?out]) @ [HttpDo MaxRetries,
            responseLogged requestID erpOrder (httpDo w MaxRetries)])"
      by (simp add: DoError exhaustedError_def responseLogged_def Errorf_w_def)
    with f' show ?thesis by blast
  next
    case (DoResponse s h b)
    with fl have no: "\<not> statusOK s" by (simp add: failedAttempt_def)
    have "?run MaxRetries tr = ?run (Suc MaxRetries)
            (tr @ [?out, HttpDo MaxRetries,
                   LogSOAPResponse requestID s h b (OrderID erpOrder) None])"
      using sendLoop_rejected [OF k(2) req DoResponse no] by simp
    also have "\<dots> = (Some (Errorf ''failed to send order to ERP after 3 attempts''),
            tr @ [?out, HttpDo MaxRetries,
                   LogSOAPResponse requestID s h b (OrderID erpOrder) None])"
      by (rule sendLoop_past) simp
    finally have "sendToERP w erpOrder requestID =
        (Some (exhaustedError (httpDo w MaxRetries)),
         (tr @ [?out]) @ [HttpDo MaxRetries,
            responseLogged requestID erpOrder (httpDo w MaxRetries)])"
      using start by (simp add: DoResponse exhaustedError_def responseLogged_def Errorf_def)
    with f' show ?thesis by blast
  qed
qed

text \<open>
  Claim C1. When request creation succeeds and every attempt gets a response whose status
  is outside 200 to 299, whatever the statuses are, \<^verbatim>\<open>sendToERP\<close> makes exactly three
  network calls, sleeps once \<open>RetryDelay\<close> after the first and twice \<open>RetryDelay\<close> after
  the second, does not sleep after the third, and returns the error of exhaustion.
\<close>

theorem retry_exhaustion:
  assumes req: "newRequest w (erpEndpoint_of w) = None"
    and rej: "\<forall>k. 1 \<le> k \<and> k \<le> MaxRetries \<longrightarrow>
                (\<exists>s h b. httpDo w k = DoResponse s h b \<and> \<not> statusOK s)"
  shows "fst (sendToERP w erpOrder requestID) =
           Some (GoError ''failed to send order to ERP after 3 attempts'' None) \<and>
         filter isTiming (snd (sendToERP w erpOrder requestID)) =
           [HttpDo 1, Sleep (RetryDelay * 1), HttpDo 2, Sleep (RetryDelay * 2), HttpDo 3]"
proof -
  from rej have failed: "\<forall>j. 1 \<le> j \<and> j \<le> MaxRetries \<longrightarrow> failedAttempt (httpDo w j)"
    by (auto simp: failedAttempt_def)
  from rej obtain s h b where last: "httpDo w 3 = DoResponse s h b"
    by (auto simp: MaxRetries_def)
  from sendToERP_exhausted [OF req failed, of erpOrder requestID] obtain tr where
    "sendToERP w erpOrder requestID =
       (Some (exhaustedError (httpDo w MaxRetries)),
        tr @ [HttpDo MaxRetries, responseLogged requestID erpOrder (httpDo w MaxRetries)])"
    and "filter isTiming tr = failedRounds MaxRetries"
    by blast
  then show ?thesis
    by (simp add: last exhaustedError_def MaxRetries_def failedRounds_3)
qed

theorem retry_exhaustion_witness:
  "newRequest (scriptedWorld [] (DoResponse 500 [] ''Internal Server Error''))
     (erpEndpoint_of (scriptedWorld [] (DoResponse 500 [] ''Internal Server Error''))) = None \<and>
   httpDo (scriptedWorld [] (DoResponse 500 [] ''Internal Server Error'')) 3 =
     DoResponse 500 [] ''Internal Server Error'' \<and>
   \<not> statusOK 500 \<and>
   fst (sendToERP (scriptedWorld [] (DoResponse 500 [] ''Internal Server Error''))
          sampleERPOrder ''req-1'') =
     Some (GoError ''failed to send order to ERP after 3 attempts'' None) \<and>
   filter isTiming (snd (sendToERP (scriptedWorld [] (DoResponse 500 [] ''Internal Server Error''))
          sampleERPOrder ''req-1'')) =
     [HttpDo 1, Sleep 2000000000, HttpDo 2, Sleep 4000000000, HttpDo 3]"
proof -
  let ?w = "scriptedWorld [] (DoResponse 500 [] ''Internal Server Error'')"
  have req: "newRequest ?w (erpEndpoint_of ?w) = None"
    by simp
  have no: "\<not> statusOK 500"
    by (simp add: statusOK_def)
  have rej: "\<forall>k. 1 \<le> k \<and> k \<le> MaxRetries \<longrightarrow>
               (\<exists>s h b. httpDo ?w k = DoResponse s h b \<and> \<not> statusOK s)"
    using no by simp
  have third: "httpDo ?w 3 = DoResponse 500 [] ''Internal Server Error''"
    by simp
  from retry_exhaustion [OF req rej, of sampleERPOrder "''req-1''"] req no third
  show ?thesis by (simp add: RetryDelay_def)
qed

text \<open>
  Claim C2. When attempt \<open>k\<close> is the first to get a 2xx status, \<^verbatim>\<open>sendToERP\<close> returns
  \<^verbatim>\<open>nil\<close> after exactly \<open>k\<close> network calls, with a sleep after each of the \<open>k - 1\<close>
  failed ones and none after the last; the last effect is the log entry of that
  response, whatever its body. And it returns \<^verbatim>\<open>nil\<close> only when some attempt within
  the budget got a 2xx status.
\<close>

theorem early_success:
  "(newRequest w (erpEndpoint_of w) = None \<and> 1 \<le> k \<and> k \<le> MaxRetries \<and>
    (\<forall>j. 1 \<le> j \<and> j < k \<longrightarrow> failedAttempt (httpDo w j)) \<and>
    httpDo w k = DoResponse s h b \<and> statusOK s \<longrightarrow>
      fst (sendToERP w erpOrder requestID) = None \<and>
      filter isTiming (snd (sendToERP w erpOrder requestID)) = failedRounds k @ [HttpDo k] \<and>
      last (snd (sendToERP w erpOrder requestID)) =
        LogSOAPResponse requestID s h b (OrderID erpOrder) None) \<and>
   (fst (sendToERP w erpOrder requestID) = None \<longrightarrow>
      (\<exists>k s h b. 1 \<le> k \<and> k \<le> MaxRetries \<and> httpDo w k = DoResponse s h b \<and> statusOK s))"
proof (intro conjI impI)
  assume a: "newRequest w (erpEndpoint_of w) = None \<and> 1 \<le> k \<and> k \<le> MaxRetries \<and>
    (\<forall>j. 1 \<le> j \<and> j < k \<longrightarrow> failedAttempt (httpDo w j)) \<and>
    httpDo w k = DoResponse s h b \<and> statusOK s"
  then obtain tr where
    run: "sendToERP w erpOrder requestID =
       (None, tr @ [HttpDo k, LogSOAPResponse requestID s h b (OrderID erpOrder) None])"
    and f: "filter isTiming tr = failedRounds k"
    using sendToERP_succeeds_at [of w k s h b erpOrder requestID] by blast
  show "fst (sendToERP w erpOrder requestID) = None"
    by (simp add: run)
  show "filter isTiming (snd (sendToERP w erpOrder requestID)) = failedRounds k @ [HttpDo k]"
    by (simp add: run f)
  show "last (snd (sendToERP w erpOrder requestID)) =
        LogSOAPResponse requestID s h b (OrderID erpOrder) None"
    by (simp add: run)
next
  assume none: "fst (sendToERP w erpOrder requestID) = None"
  show "\<exists>k s h b. 1 \<le> k \<and> k \<le> MaxRetries \<and> httpDo w k = DoResponse s h b \<and> statusOK s"
  proof (rule ccontr)
    assume no: "\<not> (\<exists>k s h b. 1 \<le> k \<and> k \<le> MaxRetries \<and>
                      httpDo w k = DoResponse s h b \<and> statusOK s)"
    have failed: "\<forall>j. 1 \<le> j \<and> j \<le> MaxRetries \<longrightarrow> failedAttempt (httpDo w j)"
    proof (intro allI impI)
      fix j assume "1 \<le> j \<and> j \<le> MaxRetries"
      with no show "failedAttempt (httpDo w j)"
        by (cases "httpDo w j") (auto simp: failedAttempt_def)
    qed
    show False
    proof (cases "newRequest w (erpEndpoint_of w)")
      case None
      from sendToERP_exhausted [OF None failed, of erpOrder requestID] none
      show False by auto
    next
      case (Some err)
      from sendToERP_request_fails [OF Some, of erpOrder requestID] none
      show False by simp
    qed
  qed
qed

theorem early_success_witness:
  "newRequest (scriptedWorld [DoError (GoError ''connection refused'' None)]
        (DoResponse 200 [] ''accepted''))
     (erpEndpoint_of (scriptedWorld [DoError (GoError ''connection refused'' None)]
        (DoResponse 200 [] ''accepted''))) = None \<and>
   (1::nat) \<le> 2 \<and> 2 \<le> MaxRetries \<and>
   failedAttempt (httpDo (scriptedWorld [DoError (GoError ''connection refused'' None)]
        (DoResponse 200 [] ''accepted'')) 1) \<and>
   httpDo (scriptedWorld [DoError (GoError ''connection refused'' None)]
        (DoResponse 200 [] ''accepted'')) 2 =
     DoResponse 200 [] ''accepted'' \<and>
   statusOK 200 \<and>
   fst (sendToERP (scriptedWorld [DoError (GoError ''connection refused'' None)]
        (DoResponse 200 [] ''accepted'')) sampleERPOrder ''req-2'') = None \<and>
   filter isTiming (snd (sendToERP (scriptedWorld [DoError (GoError ''connection refused'' None)]
        (DoResponse 200 [] ''accepted'')) sampleERPOrder ''req-2'')) =
     [HttpDo 1, Sleep 2000000000, HttpDo 2] \<and>
   last (snd (sendToERP (scriptedWorld [DoError (GoError ''connection refused'' None)]
        (DoResponse 200 [] ''accepted'')) sampleERPOrder ''req-2'')) =
     LogSOAPResponse ''req-2'' 200 [] ''accepted'' ''12345'' None"
proof -
  let ?w = "scriptedWorld [DoError (GoError ''connection refused'' None)]
        (DoResponse 200 [] ''accepted'')"
  have req: "newRequest ?w (erpEndpoint_of ?w) = None"
    by simp
  have k: "(1::nat) \<le> 2" "2 \<le> MaxRetries"
    by (simp_all add: MaxRetries_def)
  have first: "failedAttempt (httpDo ?w 1)"
    by (simp add: failedAttempt_def)
  have before: "\<forall>j. 1 \<le> j \<and> j < 2 \<longrightarrow> failedAttempt (httpDo ?w j)"
  proof (intro allI impI)
    fix j :: nat assume "1 \<le> j \<and> j < 2"
    then have "j = 1" by simp
    with first show "failedAttempt (httpDo ?w j)" by simp
  qed
  have second: "httpDo ?w 2 = DoResponse 200 [] ''accepted''"
    by simp
  have ok: "statusOK 200"
    by (simp add: statusOK_def)
  have oid: "OrderID sampleERPOrder = ''12345''"
    by (simp add: sampleERPOrder_def transformOrder_def sampleOrder_def zeroShopifyOrder_def
        Let_def fmt_d_def dec_nat.simps)
  have rounds: "failedRounds 2 = [HttpDo 1, Sleep 2000000000]"
    by (simp add: failedRounds_def upt_rec RetryDelay_def)
  from early_success [of ?w 2 200 "[]" "''accepted''" sampleERPOrder "''req-2''"]
    req k before second ok
  have "fst (sendToERP ?w sampleERPOrder ''req-2'') = None \<and>
      filter isTiming (snd (sendToERP ?w sampleERPOrder ''req-2'')) = failedRounds 2 @ [HttpDo 2] \<and>
      last (snd (sendToERP ?w sampleERPOrder ''req-2'')) =
        LogSOAPResponse ''req-2'' 200 [] ''accepted'' (OrderID sampleERPOrder) None"
    by blast
  with req k first second ok show ?thesis
    by (simp add: oid rounds)
qed





section \<open>The mapping and the envelope\<close>

lemma transformItems_eq:
  "length items = i + length rest \<Longrightarrow>
   transformItems i rest items =
     take i items @
     map (\<lambda>item. \<lparr>SKU = li_SKU item, ProductName = li_Title item,
                    Quantity = li_Quantity item, UnitPrice = li_Price item,
                    VariantTitle = li_VariantTitle item\<rparr>) rest"
proof (induction rest arbitrary: i items)
  case Nil
  then show ?case by simp
next
  case (Cons item rest)
  from Cons.prems have i: "i < length items" by simp
  let ?c = "\<lparr>SKU = li_SKU item, ProductName = li_Title item,
              Quantity = li_Quantity item, UnitPrice = li_Price item,
              VariantTitle = li_VariantTitle item\<rparr>"
  have "length (items[i := ?c]) = Suc i + length rest"
    using Cons.prems by simp
  from Cons.IH [OF this] have "transformItems (Suc i) rest (items[i := ?c]) =
      take (Suc i) (items[i := ?c]) @
      map (\<lambda>item. \<lparr>SKU = li_SKU item, ProductName = li_Title item,
                    Quantity = li_Quantity item, UnitPrice = li_Price item,
                    VariantTitle = li_VariantTitle item\<rparr>) rest" .
  moreover have "take (Suc i) (items[i := ?c]) = take i items @ [?c]"
    using i by (simp add: take_Suc_conv_app_nth)
  ultimately show ?case by simp
qed

lemma Items_transformOrder:
  "Items (transformOrder now shopifyOrder) =
     map (\<lambda>item. \<lparr>SKU = li_SKU item, ProductName = li_Title item,
                    Quantity = li_Quantity item, UnitPrice = li_Price item,
                    VariantTitle = li_VariantTitle item\<rparr>) (s_LineItems shopifyOrder)"
  by (simp add: transformOrder_def Let_def transformItems_eq)

lemma foldl_append_concat:
  "foldl (\<lambda>acc x. acc @ f x) init xs = init @ concat (map f xs)"
  by (induction xs arbitrary: init) simp_all

lemma createSOAPEnvelope_blocks:
  "createSOAPEnvelope erpOrder =
     soapEnvelope_open erpOrder @ concat (map soapEnvelope_item (Items erpOrder)) @
     soapEnvelope_close erpOrder"
  by (simp add: createSOAPEnvelope_def Let_def foldl_append_concat)

lemma soapEnvelope_open_clock:
  "soapEnvelope_open (transformOrder now shopifyOrder) =
   soapEnvelope_open (transformOrder [] shopifyOrder)"
  by (simp add: soapEnvelope_open_def transformOrder_def Let_def)

lemma soapEnvelope_close_clock:
  "soapEnvelope_close (transformOrder now shopifyOrder) =
     ''\<newline>        </tem:Items>\<newline>        <tem:Timestamp>'' @ xmlEscape now @
     ''</tem:Timestamp>\<newline>      </tem:order>\<newline>    </tem:CreateOrder>\<newline>  </soap:Body>\<newline></soap:Envelope>''"
  by (simp add: soapEnvelope_close_def transformOrder_def Let_def)

text \<open>
  Claim C7. The customer name and the names of the shipping and billing addresses are the
  first name, one space, and the last name, with nothing trimmed: with both parts empty
  the name is the single space, with an empty first name it starts with the space, and
  a trailing space of the first name stays before the separator.
\<close>

theorem display_names:
  "CustomerName (transformOrder now shopifyOrder) =
     c_FirstName (s_Customer shopifyOrder) @ '' '' @ c_LastName (s_Customer shopifyOrder) \<and>
   Name (ShippingAddress (transformOrder now shopifyOrder)) =
     a_FirstName (s_ShippingAddress shopifyOrder) @ '' '' @
     a_LastName (s_ShippingAddress shopifyOrder) \<and>
   Name (BillingAddress (transformOrder now shopifyOrder)) =
     a_FirstName (s_BillingAddress shopifyOrder) @ '' '' @
     a_LastName (s_BillingAddress shopifyOrder) \<and>
   CustomerName (transformOrder now
     (shopifyOrder\<lparr>s_Customer := zeroCustomer\<rparr>)) = '' '' \<and>
   CustomerName (transformOrder now
     (shopifyOrder\<lparr>s_Customer := zeroCustomer\<lparr>c_LastName := ''Doe''\<rparr>\<rparr>)) = '' Doe'' \<and>
   CustomerName (transformOrder now
     (shopifyOrder\<lparr>s_Customer := zeroCustomer\<lparr>c_FirstName := ''Jane ''\<rparr>\<rparr>)) = ''Jane  ''"
  by (simp add: transformOrder_def Let_def zeroCustomer_def)

text \<open>
  Claim C8, as the code has it. \<^verbatim>\<open>transformOrder\<close> has no error to return and gives,
  for every order, a record with all sixteen fields, each a fixed function of the inbound
  fields and the clock; a string field that is passed through is empty whenever the
  inbound field is. On the order with every field absent the pass-through strings are
  empty, the two identifiers are the digits of zero, the three display names are the
  separator between two empty parts, there are no items, and the timestamp is the clock
  reading.
\<close>

theorem transformOrder_total:
  "transformOrder now shopifyOrder =
     \<lparr>OrderID = fmt_d (sint (s_ID shopifyOrder)),
      OrderNumber = fmt_d (sint (s_OrderNumber shopifyOrder)),
      CustomerEmail = s_Email shopifyOrder,
      CustomerName = c_FirstName (s_Customer shopifyOrder) @ '' '' @
                     c_LastName (s_Customer shopifyOrder),
      CustomerPhone = c_Phone (s_Customer shopifyOrder),
      OrderDate = s_CreatedAt shopifyOrder,
      TotalAmount = s_TotalPrice shopifyOrder,
      SubtotalAmount = s_SubtotalPrice shopifyOrder,
      TaxAmount = s_TotalTax shopifyOrder,
      Currency = s_Currency shopifyOrder,
      PaymentStatus = s_FinancialStatus shopifyOrder,
      FulfillmentStatus = s_FulfillmentStatus shopifyOrder,
      Items = map (\<lambda>item. \<lparr>SKU = li_SKU item, ProductName = li_Title item,
                    Quantity = li_Quantity item, UnitPrice = li_Price item,
                    VariantTitle = li_VariantTitle item\<rparr>) (s_LineItems shopifyOrder),
      ShippingAddress =
        \<lparr>Name = a_FirstName (s_ShippingAddress shopifyOrder) @ '' '' @
                a_LastName (s_ShippingAddress shopifyOrder),
         Company = a_Company (s_ShippingAddress shopifyOrder),
         AddressLine1 = a_Address1 (s_ShippingAddress shopifyOrder),
         AddressLine2 = a_Address2 (s_ShippingAddress shopifyOrder),
         City = a_City (s_ShippingAddress shopifyOrder),
         State = a_Province (s_ShippingAddress shopifyOrder),
         PostalCode = a_Zip (s_ShippingAddress shopifyOrder),
         Country = a_Country (s_ShippingAddress shopifyOrder),
         Phone = a_Phone (s_ShippingAddress shopifyOrder)\<rparr>,
      BillingAddress =
        \<lparr>Name = a_FirstName (s_BillingAddress shopifyOrder) @ '' '' @
                a_LastName (s_BillingAddress shopifyOrder),
         Company = a_Company (s_BillingAddress shopifyOrder),
         AddressLine1 = a_Address1 (s_BillingAddress shopifyOrder),
         AddressLine2 = a_Address2 (s_BillingAddress shopifyOrder),
         City = a_City (s_BillingAddress shopifyOrder),
         State = a_Province (s_BillingAddress shopifyOrder),
         PostalCode = a_Zip (s_BillingAddress shopifyOrder),
         Country = a_Country (s_BillingAddress shopifyOrder),
         Phone = a_Phone (s_BillingAddress shopifyOrder)\<rparr>,
      Timestamp = now\<rparr> \<and>
   transformOrder now zeroShopifyOrder =
     \<lparr>OrderID = ''0'', OrderNumber = ''0'', CustomerEmail = [], CustomerName = '' '',
      CustomerPhone = [], OrderDate = [], TotalAmount = [], SubtotalAmount = [],
      TaxAmount = [], Currency = [], PaymentStatus = [], FulfillmentStatus = [],
      Items = [],
      ShippingAddress = \<lparr>Name = '' '', Company = [], AddressLine1 = [], AddressLine2 = [],
        City = [], State = [], PostalCode = [], Country = [], Phone = []\<rparr>,
      BillingAddress = \<lparr>Name = '' '', Company = [], AddressLine1 = [], AddressLine2 = [],
        City = [], State = [], PostalCode = [], Country = [], Phone = []\<rparr>,
      Timestamp = now\<rparr>"
proof
  show "transformOrder now zeroShopifyOrder =
     \<lparr>OrderID = ''0'', OrderNumber = ''0'', CustomerEmail = [], CustomerName = '' '',
      CustomerPhone = [], OrderDate = [], TotalAmount = [], SubtotalAmount = [],
      TaxAmount = [], Currency = [], PaymentStatus = [], FulfillmentStatus = [],
      Items = [],
      ShippingAddress = \<lparr>Name = '' '', Company = [], AddressLine1 = [], AddressLine2 = [],
        City = [], State = [], PostalCode = [], Country = [], Phone = []\<rparr>,
      BillingAddress = \<lparr>Name = '' '', Company = [], AddressLine1 = [], AddressLine2 = [],
        City = [], State = [], PostalCode = [], Country = [], Phone = []\<rparr>,
      Timestamp = now\<rparr>"
    by (simp add: transformOrder_def Let_def zeroShopifyOrder_def zeroAddress_def
        zeroCustomer_def fmt_d_def dec_nat.simps)
qed (simp add: transformOrder_def Let_def transformItems_eq)

text \<open>
  Claim C8 as stated fails for the display names: with the inbound first and last name
  absent, the customer name and both address names are one space, not the empty string.
\<close>

theorem transformOrder_total_counterexample:
  "c_FirstName (s_Customer zeroShopifyOrder) = [] \<and>
   c_LastName (s_Customer zeroShopifyOrder) = [] \<and>
   CustomerName (transformOrder ''2024-01-15T10:30:00Z'' zeroShopifyOrder) = '' '' \<and>
   CustomerName (transformOrder ''2024-01-15T10:30:00Z'' zeroShopifyOrder) \<noteq> [] \<and>
   Name (ShippingAddress (transformOrder ''2024-01-15T10:30:00Z'' zeroShopifyOrder)) \<noteq> [] \<and>
   Name (BillingAddress (transformOrder ''2024-01-15T10:30:00Z'' zeroShopifyOrder)) \<noteq> []"
  by (simp add: transformOrder_def Let_def zeroShopifyOrder_def zeroAddress_def zeroCustomer_def)

text \<open>
  Claim C9. The three order amounts are the inbound price strings unchanged, each mapped
  item's unit price is the line item's price string unchanged, and each quantity is the
  line item's integer unchanged. On the order of the concrete scenario the total is the
  string 150.00 and the one item has quantity 2 and unit price 65.00.
\<close>

theorem money_passthrough:
  "TotalAmount (transformOrder now shopifyOrder) = s_TotalPrice shopifyOrder \<and>
   SubtotalAmount (transformOrder now shopifyOrder) = s_SubtotalPrice shopifyOrder \<and>
   TaxAmount (transformOrder now shopifyOrder) = s_TotalTax shopifyOrder \<and>
   map UnitPrice (Items (transformOrder now shopifyOrder)) =
     map li_Price (s_LineItems shopifyOrder) \<and>
   map Quantity (Items (transformOrder now shopifyOrder)) =
     map li_Quantity (s_LineItems shopifyOrder) \<and>
   TotalAmount (transformOrder now sampleOrder) = ''150.00'' \<and>
   Items (transformOrder now sampleOrder) =
     [\<lparr>SKU = ''TEST-SKU-001'', ProductName = [], Quantity = 2, UnitPrice = ''65.00'',
       VariantTitle = []\<rparr>]"
proof -
  have "TotalAmount (transformOrder now sampleOrder) = ''150.00''"
    by (simp add: transformOrder_def Let_def sampleOrder_def)
  moreover have "TotalAmount (transformOrder now shopifyOrder) = s_TotalPrice shopifyOrder"
    and "SubtotalAmount (transformOrder now shopifyOrder) = s_SubtotalPrice shopifyOrder"
    and "TaxAmount (transformOrder now shopifyOrder) = s_TotalTax shopifyOrder"
    by (simp_all add: transformOrder_def Let_def)
  ultimately show ?thesis
    by (simp add: Items_transformOrder comp_def sampleOrder_def)
qed

text \<open>
  Claim C10. The order date is the inbound \<^verbatim>\<open>created_at\<close> string as it is and does not
  depend on the clock; the timestamp is the clock reading and does not depend on
  \<^verbatim>\<open>created_at\<close>.
\<close>

theorem order_date_and_timestamp:
  "OrderDate (transformOrder now shopifyOrder) = s_CreatedAt shopifyOrder \<and>
   Timestamp (transformOrder now shopifyOrder) = now \<and>
   OrderDate (transformOrder now' shopifyOrder) = OrderDate (transformOrder now shopifyOrder) \<and>
   Timestamp (transformOrder now (shopifyOrder\<lparr>s_CreatedAt := created\<rparr>)) =
     Timestamp (transformOrder now shopifyOrder)"
  by (simp add: transformOrder_def Let_def)

text \<open>
  Claim C4. The clock reading is the only input of \<^verbatim>\<open>transformOrder\<close> besides the order,
  and it reaches the \<open>Timestamp\<close> field only: two runs on the same order agree once
  their \<open>Timestamp\<close> fields are set equal. The envelope of the mapped order is a fixed
  text before and a fixed text after the escaped clock reading, the same two texts for
  every clock reading; \<^verbatim>\<open>createSOAPEnvelope\<close> itself reads nothing but its argument.
\<close>

theorem determinism:
  "(transformOrder now1 shopifyOrder)\<lparr>Timestamp := t\<rparr> =
   (transformOrder now2 shopifyOrder)\<lparr>Timestamp := t\<rparr> \<and>
   (\<exists>before after. \<forall>now.
      createSOAPEnvelope (transformOrder now shopifyOrder) = before @ xmlEscape now @ after)"
proof
  show "(transformOrder now1 shopifyOrder)\<lparr>Timestamp := t\<rparr> =
        (transformOrder now2 shopifyOrder)\<lparr>Timestamp := t\<rparr>"
    by (simp add: transformOrder_def Let_def)
next
  let ?e = "transformOrder [] shopifyOrder"
  have "\<forall>now. createSOAPEnvelope (transformOrder now shopifyOrder) =
      (soapEnvelope_open ?e @ concat (map soapEnvelope_item (Items ?e)) @
       ''\<newline>        </tem:Items>\<newline>        <tem:Timestamp>'') @ xmlEscape now @
      ''</tem:Timestamp>\<newline>      </tem:order>\<newline>    </tem:CreateOrder>\<newline>  </soap:Body>\<newline></soap:Envelope>''"
    unfolding createSOAPEnvelope_blocks
    by (subst soapEnvelope_open_clock) (simp add: soapEnvelope_close_clock Items_transformOrder)
  then show "\<exists>before after. \<forall>now.
      createSOAPEnvelope (transformOrder now shopifyOrder) = before @ xmlEscape now @ after"
    by blast
qed

section \<open>Escaping and the reader\<close>

lemma byte_special [simp]:
  "byte (CHR ''&'') = 38" "byte (CHR 0x27) = 39" "byte (CHR ''<'') = 60"
  "byte (CHR ''>'') = 62" "byte (CHR 0x22) = 34"
  by (simp_all add: byte_def)

lemma utf8_quotes: "utf8 39 = [CHR 0x27]" "utf8 34 = [CHR 0x22]"
  by code_simp+

lemma append_single: "(@) [c] = (#) c"
  by (rule ext) simp

lemma charData_htmlEscaper:
  "charData (htmlEscaper c @ s) = map_option ((#) c) (charData s)"
  by (simp add: htmlEscaper_def charData.simps(2) reference_def charRef_def predefined_def
      isDecDigit_def byte_def digitsValue_def digitValue_def xmlCodePoint_def utf8_quotes
      Let_def append_single)

lemma charData_xmlEscape: "charData (xmlEscape s) = Some s"
  unfolding xmlEscape_def
  by (induction s) (simp_all add: charData_htmlEscaper)

lemma htmlEscaper_high: "0x80 \<le> byte c \<Longrightarrow> htmlEscaper c = [c]"
  by (auto simp: htmlEscaper_def)

lemma xmlChars_htmlEscaper:
  "byte a < 0x80 \<Longrightarrow> oneByte a \<Longrightarrow> xmlChars (htmlEscaper a @ s) = xmlChars s"
  by (auto simp: htmlEscaper_def oneByte_def byte_def)

lemma continuation_high: "continuation c \<Longrightarrow> 0x80 \<le> byte c"
  by (simp add: continuation_def)

lemma xmlChars_escape: "xmlChars s \<Longrightarrow> xmlChars (html_EscapeString s)"
proof (induction s rule: xmlChars.induct)
  case 1
  show ?case by simp
next
  case (2 a s)
  show ?case
  proof (cases "byte a < 0x80")
    case True
    with "2.prems" have "oneByte a" "xmlChars s" by simp_all
    with True "2.IH"(1) show ?thesis
      by (simp add: xmlChars_htmlEscaper del: xmlChars.simps)
  next
    case False
    then have a: "htmlEscaper a = [a]" by (simp add: htmlEscaper_high)
    from False "2.prems" obtain b s1 where s: "s = b # s1"
      by (cases s) simp_all
    show ?thesis
    proof (cases "twoBytes a b")
      case True
      then have b: "htmlEscaper b = [b]"
        by (simp add: twoBytes_def htmlEscaper_high continuation_high)
      from True False "2.prems" s have "xmlChars s1" by simp
      with "2.IH"(2) [OF False s True] have "xmlChars (html_EscapeString s1)" .
      with True False show ?thesis by (simp add: s a b)
    next
      case two: False
      with False "2.prems" s obtain c s2 where s1: "s1 = c # s2"
        by (cases s1) simp_all
      show ?thesis
      proof (cases "threeBytes a b c")
        case True
        then have bc: "htmlEscaper b = [b]" "htmlEscaper c = [c]"
          by (auto simp: threeBytes_def continuation_def intro!: htmlEscaper_high)
        from True two False "2.prems" s s1 have "xmlChars s2" by simp
        with "2.IH"(3) [OF False s two s1 True] have "xmlChars (html_EscapeString s2)" .
        with True two False show ?thesis by (simp add: s s1 a bc)
      next
        case three: False
        with two False "2.prems" s s1 obtain d s3 where s2: "s2 = d # s3"
          by (cases s2) simp_all
        with three two False "2.prems" s s1 have four: "fourBytes a b c d" and v: "xmlChars s3"
          by simp_all
        from four have bcd: "htmlEscaper b = [b]" "htmlEscaper c = [c]" "htmlEscaper d = [d]"
          by (auto simp: fourBytes_def continuation_def intro!: htmlEscaper_high)
        from "2.IH"(4) [OF False s two s1 three s2] v
        have "xmlChars (html_EscapeString s3)" by simp
        with four three two False show ?thesis by (simp add: s s1 s2 a bcd)
      qed
    qed
  qed
qed

lemma lineEnds_id: "CHR 0x0D \<notin> set s \<Longrightarrow> lineEnds s = s"
  by (induction s rule: lineEnds.induct) auto

lemma cdEnd_no_gt: "CHR ''>'' \<notin> set s \<Longrightarrow> \<not> cdEnd s"
  by (induction s rule: cdEnd.induct) auto

lemma htmlEscaper_no_markup:
  "CHR ''<'' \<notin> set (htmlEscaper c)" "CHR ''>'' \<notin> set (htmlEscaper c)"
  "CHR 0x22 \<notin> set (htmlEscaper c)" "CHR 0x27 \<notin> set (htmlEscaper c)"
  by (simp_all add: htmlEscaper_def)

lemma xmlEscape_no_markup:
  "CHR ''<'' \<notin> set (xmlEscape s)" "CHR ''>'' \<notin> set (xmlEscape s)"
  "CHR 0x22 \<notin> set (xmlEscape s)" "CHR 0x27 \<notin> set (xmlEscape s)"
  unfolding xmlEscape_def by (induction s; simp add: htmlEscaper_no_markup)+

lemma htmlEscaper_no_CR: "c \<noteq> CHR 0x0D \<Longrightarrow> CHR 0x0D \<notin> set (htmlEscaper c)"
  by (simp add: htmlEscaper_def)

lemma xmlEscape_no_CR: "CHR 0x0D \<notin> set s \<Longrightarrow> CHR 0x0D \<notin> set (xmlEscape s)"
  unfolding xmlEscape_def by (induction s) (auto simp: htmlEscaper_no_CR)

lemma xmlUnescape_xmlEscape:
  assumes "xmlChars s" "CHR 0x0D \<notin> set s"
  shows "xmlUnescape (xmlEscape s) = Some s"
proof -
  from assms(1) have "xmlChars (xmlEscape s)"
    by (simp add: xmlEscape_def xmlChars_escape)
  moreover from assms(2) have "lineEnds (xmlEscape s) = xmlEscape s"
    by (simp add: lineEnds_id xmlEscape_no_CR)
  moreover have "\<not> cdEnd (xmlEscape s)"
    by (simp add: cdEnd_no_gt xmlEscape_no_markup)
  ultimately show ?thesis
    by (simp add: xmlUnescape_def charData_xmlEscape)
qed

lemma scan_text_char:
  "c \<noteq> CHR ''<'' \<Longrightarrow> scanElements opened acc None (c # cs) = scanElements opened (acc @ [c]) None cs"
  by (simp add: scanElements.simps)

lemma scan_tag_open:
  "scanElements opened acc None (CHR ''<'' # cs) = scanElements opened acc (Some []) cs"
  by (simp add: scanElements.simps)

lemma scan_tag_char:
  "c \<noteq> CHR ''>'' \<Longrightarrow>
   scanElements opened acc (Some name) (c # cs) = scanElements opened acc (Some (name @ [c])) cs"
  by (simp add: scanElements.simps)

lemma scan_tag_close:
  "scanElements opened acc (Some name) (CHR ''>'' # cs) =
     (if name = CHR ''/'' # opened then [(opened, acc)] else []) @ scanElements name [] None cs"
  by (simp add: scanElements.simps)

lemma scanElements_text:
  "CHR ''<'' \<notin> set u \<Longrightarrow>
   scanElements opened acc None (u @ rest) = scanElements opened (acc @ u) None rest"
  by (induction u arbitrary: acc) (auto simp: scan_text_char)

lemma dec_nat_digits: "set (dec_nat n) \<subseteq> set ''0123456789''"
proof (induction n rule: dec_nat.induct)
  case (1 n)
  have d: "''0123456789'' ! k \<in> set ''0123456789''" if "k < 10" for k
    using that by (intro nth_mem) simp
  show ?case
  proof (cases "n < 10")
    case True
    with d [of n] show ?thesis by (subst dec_nat.simps) simp
  next
    case False
    have "n mod 10 < 10" by simp
    with d [of "n mod 10"] 1 False show ?thesis
      by (subst dec_nat.simps) simp
  qed
qed

lemma fmt_d_no_lt: "CHR ''<'' \<notin> set (fmt_d i)"
proof -
  have "CHR ''<'' \<notin> set (dec_nat n)" for n
    using dec_nat_digits [of n] by auto
  then show ?thesis by (simp add: fmt_d_def)
qed

lemma scanElements_xmlEscape:
  "scanElements opened acc None (xmlEscape s @ rest) =
   scanElements opened (acc @ xmlEscape s) None rest"
  by (rule scanElements_text [OF xmlEscape_no_markup(1)])

lemma scanElements_fmt_d:
  "scanElements opened acc None (fmt_d i @ rest) =
   scanElements opened (acc @ fmt_d i) None rest"
  by (rule scanElements_text [OF fmt_d_no_lt])

lemmas scan_rules = scan_text_char scan_tag_open scan_tag_char scan_tag_close
  scanElements.simps(1) scanElements_xmlEscape scanElements_fmt_d

lemma scanElements_item:
  "scanElements opened [] None (soapEnvelope_item item @ rest) =
     [(''tem:SKU'', xmlEscape (SKU item)),
      (''tem:ProductName'', xmlEscape (ProductName item)),
      (''tem:Quantity'', fmt_d (sint (Quantity item))),
      (''tem:UnitPrice'', xmlEscape (UnitPrice item)),
      (''tem:VariantTitle'', xmlEscape (VariantTitle item))] @
     scanElements ''/tem:Item'' [] None rest"
  by (simp add: soapEnvelope_item_def scan_rules)

lemma scanElements_items:
  "scanElements opened [] None (concat (map soapEnvelope_item items) @ rest) =
     concat (map (\<lambda>item.
       [(''tem:SKU'', xmlEscape (SKU item)),
        (''tem:ProductName'', xmlEscape (ProductName item)),
        (''tem:Quantity'', fmt_d (sint (Quantity item))),
        (''tem:UnitPrice'', xmlEscape (UnitPrice item)),
        (''tem:VariantTitle'', xmlEscape (VariantTitle item))]) items) @
     scanElements (if items = [] then opened else ''/tem:Item'') [] None rest"
proof (induction items arbitrary: opened)
  case Nil
  show ?case by simp
next
  case (Cons item items)
  have "scanElements opened [] None (concat (map soapEnvelope_item (item # items)) @ rest) =
        scanElements opened [] None
          (soapEnvelope_item item @ concat (map soapEnvelope_item items) @ rest)"
    by simp
  also have "\<dots> =
     [(''tem:SKU'', xmlEscape (SKU item)),
      (''tem:ProductName'', xmlEscape (ProductName item)),
      (''tem:Quantity'', fmt_d (sint (Quantity item))),
      (''tem:UnitPrice'', xmlEscape (UnitPrice item)),
      (''tem:VariantTitle'', xmlEscape (VariantTitle item))] @
     scanElements ''/tem:Item'' [] None (concat (map soapEnvelope_item items) @ rest)"
    by (rule scanElements_item)
  finally show ?case
    by (simp add: Cons.IH)
qed

lemma scanElements_open:
  "scanElements [] [] None (soapEnvelope_open erpOrder @ rest) =
     [(''tem:OrderID'', xmlEscape (OrderID erpOrder)),
      (''tem:OrderNumber'', xmlEscape (OrderNumber erpOrder)),
      (''tem:CustomerEmail'', xmlEscape (CustomerEmail erpOrder)),
      (''tem:CustomerName'', xmlEscape (CustomerName erpOrder)),
      (''tem:CustomerPhone'', xmlEscape (CustomerPhone erpOrder)),
      (''tem:OrderDate'', xmlEscape (OrderDate erpOrder)),
      (''tem:TotalAmount'', xmlEscape (TotalAmount erpOrder)),
      (''tem:SubtotalAmount'', xmlEscape (SubtotalAmount erpOrder)),
      (''tem:TaxAmount'', xmlEscape (TaxAmount erpOrder)),
      (''tem:Currency'', xmlEscape (Currency erpOrder)),
      (''tem:PaymentStatus'', xmlEscape (PaymentStatus erpOrder)),
      (''tem:FulfillmentStatus'', xmlEscape (FulfillmentStatus erpOrder)),
      (''tem:Name'', xmlEscape (Name (ShippingAddress erpOrder))),
      (''tem:Company'', xmlEscape (Company (ShippingAddress erpOrder))),
      (''tem:AddressLine1'', xmlEscape (AddressLine1 (ShippingAddress erpOrder))),
      (''tem:AddressLine2'', xmlEscape (AddressLine2 (ShippingAddress erpOrder))),
      (''tem:City'', xmlEscape (City (ShippingAddress erpOrder))),
      (''tem:State'', xmlEscape (State (ShippingAddress erpOrder))),
      (''tem:PostalCode'', xmlEscape (PostalCode (ShippingAddress erpOrder))),
      (''tem:Country'', xmlEscape (Country (ShippingAddress erpOrder))),
      (''tem:Phone'', xmlEscape (Phone (ShippingAddress erpOrder))),
      (''tem:Name'', xmlEscape (Name (BillingAddress erpOrder))),
      (''tem:Company'', xmlEscape (Company (BillingAddress erpOrder))),
      (''tem:AddressLine1'', xmlEscape (AddressLine1 (BillingAddress erpOrder))),
      (''tem:AddressLine2'', xmlEscape (AddressLine2 (BillingAddress erpOrder))),
      (''tem:City'', xmlEscape (City (BillingAddress erpOrder))),
      (''tem:State'', xmlEscape (State (BillingAddress erpOrder))),
      (''tem:PostalCode'', xmlEscape (PostalCode (BillingAddress erpOrder))),
      (''tem:Country'', xmlEscape (Country (BillingAddress erpOrder))),
      (''tem:Phone'', xmlEscape (Phone (BillingAddress erpOrder)))] @
     scanElements ''tem:Items'' [] None rest"
  by (simp add: soapEnvelope_open_def scan_rules)

lemma scanElements_close:
  "scanElements opened [] None (soapEnvelope_close erpOrder) =
     (if opened = ''tem:Items'' then [(''tem:Items'', ''\<newline>        '')] else []) @
     [(''tem:Timestamp'', xmlEscape (Timestamp erpOrder))]"
  by (simp add: soapEnvelope_close_def scan_rules)

text \<open>
  Claim C5, as the code has it. Every string field of the order, of each address and of
  each item is in the envelope as the text of one element, in order, escaped by
  \<open>xmlEscape\<close> (an item's quantity is the decimal rendering of an integer; when the
  order has no item, the \<^verbatim>\<open>Items\<close> element holds the line break and indentation
  between its two tags). \<open>xmlEscape\<close> replaces the five bytes ampersand, apostrophe,
  less-than, greater-than and quotation mark by their references and leaves none of the
  last four in its result; the empty string stays empty and text that already holds a
  reference is escaped again. For every string that is well-formed UTF-8 of characters
  XML 1.0 allows and holds no carriage return, the reader gives the string back from its
  escaped form.
\<close>

theorem escaping_round_trip:
  "(xmlChars s \<and> CHR 0x0D \<notin> set s \<longrightarrow> xmlUnescape (xmlEscape s) = Some s) \<and>
   xmlEscape [] = [] \<and>
   xmlEscape ''a&lt;b'' = ''a&amp;lt;b'' \<and>
   xmlEscape [CHR ''&'', CHR 0x27, CHR ''<'', CHR ''>'', CHR 0x22] = ''&amp;&#39;&lt;&gt;&#34;'' \<and>
   CHR ''<'' \<notin> set (xmlEscape s) \<and> CHR ''>'' \<notin> set (xmlEscape s) \<and>
   CHR 0x22 \<notin> set (xmlEscape s) \<and> CHR 0x27 \<notin> set (xmlEscape s) \<and>
   textElements (createSOAPEnvelope erpOrder) =
     [(''tem:OrderID'', xmlEscape (OrderID erpOrder)),
      (''tem:OrderNumber'', xmlEscape (OrderNumber erpOrder)),
      (''tem:CustomerEmail'', xmlEscape (CustomerEmail erpOrder)),
      (''tem:CustomerName'', xmlEscape (CustomerName erpOrder)),
      (''tem:CustomerPhone'', xmlEscape (CustomerPhone erpOrder)),
      (''tem:OrderDate'', xmlEscape (OrderDate erpOrder)),
      (''tem:TotalAmount'', xmlEscape (TotalAmount erpOrder)),
      (''tem:SubtotalAmount'', xmlEscape (SubtotalAmount erpOrder)),
      (''tem:TaxAmount'', xmlEscape (TaxAmount erpOrder)),
      (''tem:Currency'', xmlEscape (Currency erpOrder)),
      (''tem:PaymentStatus'', xmlEscape (PaymentStatus erpOrder)),
      (''tem:FulfillmentStatus'', xmlEscape (FulfillmentStatus erpOrder)),
      (''tem:Name'', xmlEscape (Name (ShippingAddress erpOrder))),
      (''tem:Company'', xmlEscape (Company (ShippingAddress erpOrder))),
      (''tem:AddressLine1'', xmlEscape (AddressLine1 (ShippingAddress erpOrder))),
      (''tem:AddressLine2'', xmlEscape (AddressLine2 (ShippingAddress erpOrder))),
      (''tem:City'', xmlEscape (City (ShippingAddress erpOrder))),
      (''tem:State'', xmlEscape (State (ShippingAddress erpOrder))),
      (''tem:PostalCode'', xmlEscape (PostalCode (ShippingAddress erpOrder))),
      (''tem:Country'', xmlEscape (Country (ShippingAddress erpOrder))),
      (''tem:Phone'', xmlEscape (Phone (ShippingAddress erpOrder))),
      (''tem:Name'', xmlEscape (Name (BillingAddress erpOrder))),
      (''tem:Company'', xmlEscape (Company (BillingAddress erpOrder))),
      (''tem:AddressLine1'', xmlEscape (AddressLine1 (BillingAddress erpOrder))),
      (''tem:AddressLine2'', xmlEscape (AddressLine2 (BillingAddress erpOrder))),
      (''tem:City'', xmlEscape (City (BillingAddress erpOrder))),
      (''tem:State'', xmlEscape (State (BillingAddress erpOrder))),
      (''tem:PostalCode'', xmlEscape (PostalCode (BillingAddress erpOrder))),
      (''tem:Country'', xmlEscape (Country (BillingAddress erpOrder))),
      (''tem:Phone'', xmlEscape (Phone (BillingAddress erpOrder)))] @
     concat (map (\<lambda>item.
       [(''tem:SKU'', xmlEscape (SKU item)),
        (''tem:ProductName'', xmlEscape (ProductName item)),
        (''tem:Quantity'', fmt_d (sint (Quantity item))),
        (''tem:UnitPrice'', xmlEscape (UnitPrice item)),
        (''tem:VariantTitle'', xmlEscape (VariantTitle item))]) (Items erpOrder)) @
     (if Items erpOrder = [] then [(''tem:Items'', ''\<newline>        '')] else []) @
     [(''tem:Timestamp'', xmlEscape (Timestamp erpOrder))]"
proof (intro conjI impI)
  assume "xmlChars s \<and> CHR 0x0D \<notin> set s"
  then show "xmlUnescape (xmlEscape s) = Some s"
    by (simp add: xmlUnescape_xmlEscape)
next
  show "xmlEscape [] = []"
    by (simp add: xmlEscape_def)
  show "xmlEscape ''a&lt;b'' = ''a&amp;lt;b''"
    by (simp add: xmlEscape_def htmlEscaper_def)
  show "xmlEscape [CHR ''&'', CHR 0x27, CHR ''<'', CHR ''>'', CHR 0x22] =
      ''&amp;&#39;&lt;&gt;&#34;''"
    by (simp add: xmlEscape_def htmlEscaper_def)
  show "CHR ''<'' \<notin> set (xmlEscape s)" "CHR ''>'' \<notin> set (xmlEscape s)"
    "CHR 0x22 \<notin> set (xmlEscape s)" "CHR 0x27 \<notin> set (xmlEscape s)"
    by (rule xmlEscape_no_markup)+
  show "textElements (createSOAPEnvelope erpOrder) =
     [(''tem:OrderID'', xmlEscape (OrderID erpOrder)),
      (''tem:OrderNumber'', xmlEscape (OrderNumber erpOrder)),
      (''tem:CustomerEmail'', xmlEscape (CustomerEmail erpOrder)),
      (''tem:CustomerName'', xmlEscape (CustomerName erpOrder)),
      (''tem:CustomerPhone'', xmlEscape (CustomerPhone erpOrder)),
      (''tem:OrderDate'', xmlEscape (OrderDate erpOrder)),
      (''tem:TotalAmount'', xmlEscape (TotalAmount erpOrder)),
      (''tem:SubtotalAmount'', xmlEscape (SubtotalAmount erpOrder)),
      (''tem:TaxAmount'', xmlEscape (TaxAmount erpOrder)),
      (''tem:Currency'', xmlEscape (Currency erpOrder)),
      (''tem:PaymentStatus'', xmlEscape (PaymentStatus erpOrder)),
      (''tem:FulfillmentStatus'', xmlEscape (FulfillmentStatus erpOrder)),
      (''tem:Name'', xmlEscape (Name (ShippingAddress erpOrder))),
      (''tem:Company'', xmlEscape (Company (ShippingAddress erpOrder))),
      (''tem:AddressLine1'', xmlEscape (AddressLine1 (ShippingAddress erpOrder))),
      (''tem:AddressLine2'', xmlEscape (AddressLine2 (ShippingAddress erpOrder))),
      (''tem:City'', xmlEscape (City (ShippingAddress erpOrder))),
      (''tem:State'', xmlEscape (State (ShippingAddress erpOrder))),
      (''tem:PostalCode'', xmlEscape (PostalCode (ShippingAddress erpOrder))),
      (''tem:Country'', xmlEscape (Country (ShippingAddress erpOrder))),
      (''tem:Phone'', xmlEscape (Phone (ShippingAddress erpOrder))),
      (''tem:Name'', xmlEscape (Name (BillingAddress erpOrder))),
      (''tem:Company'', xmlEscape (Company (BillingAddress erpOrder))),
      (''tem:AddressLine1'', xmlEscape (AddressLine1 (BillingAddress erpOrder))),
      (''tem:AddressLine2'', xmlEscape (AddressLine2 (BillingAddress erpOrder))),
      (''tem:City'', xmlEscape (City (BillingAddress erpOrder))),
      (''tem:State'', xmlEscape (State (BillingAddress erpOrder))),
      (''tem:PostalCode'', xmlEscape (PostalCode (BillingAddress erpOrder))),
      (''tem:Country'', xmlEscape (Country (BillingAddress erpOrder))),
      (''tem:Phone'', xmlEscape (Phone (BillingAddress erpOrder)))] @
     concat (map (\<lambda>item.
       [(''tem:SKU'', xmlEscape (SKU item)),
        (''tem:ProductName'', xmlEscape (ProductName item)),
        (''tem:Quantity'', fmt_d (sint (Quantity item))),
        (''tem:UnitPrice'', xmlEscape (UnitPrice item)),
        (''tem:VariantTitle'', xmlEscape (VariantTitle item))]) (Items erpOrder)) @
     (if Items erpOrder = [] then [(''tem:Items'', ''\<newline>        '')] else []) @
     [(''tem:Timestamp'', xmlEscape (Timestamp erpOrder))]"
    unfolding textElements_def createSOAPEnvelope_blocks scanElements_open
      scanElements_items scanElements_close
    by simp
qed

theorem escaping_round_trip_witness:
  "xmlChars sampleText \<and> CHR 0x0D \<notin> set sampleText \<and>
   xmlEscape sampleText = ''Zo'' @ [CHR 0xC3, CHR 0xAB] @ '' &amp; &lt;zoe@example.org&gt;'' \<and>
   xmlUnescape (xmlEscape sampleText) = Some sampleText"
proof -
  have v: "xmlChars sampleText"
    by (simp add: sampleText_def oneByte_def twoBytes_def continuation_def byte_def)
  have n: "CHR 0x0D \<notin> set sampleText"
    by (simp add: sampleText_def)
  have e: "xmlEscape sampleText =
      ''Zo'' @ [CHR 0xC3, CHR 0xAB] @ '' &amp; &lt;zoe@example.org&gt;''"
    by (simp add: sampleText_def xmlEscape_def htmlEscaper_def)
  from escaping_round_trip [of sampleText sampleERPOrder]
  have "xmlChars sampleText \<and> CHR 0x0D \<notin> set sampleText \<longrightarrow>
      xmlUnescape (xmlEscape sampleText) = Some sampleText"
    by (rule conjunct1)
  with v n e show ?thesis by blast
qed

text \<open>
  Claim C5 as stated, for every string, fails: the escaping copies a carriage return and
  a NUL byte as they are, and the reader gives a line feed for the first and rejects
  the second.
\<close>

theorem escaping_round_trip_counterexample:
  "xmlEscape [CHR 0x0D] = [CHR 0x0D] \<and>
   xmlUnescape (xmlEscape [CHR 0x0D]) = Some [CHR 0x0A] \<and>
   xmlUnescape (xmlEscape [CHR 0x0D]) \<noteq> Some [CHR 0x0D] \<and>
   xmlEscape [CHR 0x00] = [CHR 0x00] \<and>
   xmlUnescape (xmlEscape [CHR 0x00]) = None"
  by (simp add: xmlUnescape_def xmlEscape_def htmlEscaper_def oneByte_def byte_def
      charData.simps(2))


section \<open>The item blocks\<close>

lemma blocks_text_char:
  "c \<noteq> CHR ''<'' \<Longrightarrow>
   scanBlocks opened acc None block (c # cs) = scanBlocks opened (acc @ [c]) None block cs"
  by (simp add: scanBlocks.simps)

lemma blocks_tag_open:
  "scanBlocks opened acc None block (CHR ''<'' # cs) = scanBlocks opened acc (Some []) block cs"
  by (simp add: scanBlocks.simps)

lemma blocks_tag_char:
  "c \<noteq> CHR ''>'' \<Longrightarrow>
   scanBlocks opened acc (Some name) block (c # cs) =
   scanBlocks opened acc (Some (name @ [c])) block cs"
  by (simp add: scanBlocks.simps)

lemma blocks_item_open:
  "scanBlocks opened acc (Some ''tem:Item'') block (CHR ''>'' # cs) =
   scanBlocks ''tem:Item'' [] None (Some []) cs"
  by (simp add: scanBlocks.simps)

lemma blocks_item_close:
  "scanBlocks opened acc (Some ''/tem:Item'') (Some b) (CHR ''>'' # cs) =
   b # scanBlocks ''/tem:Item'' [] None None cs"
  by (simp add: scanBlocks.simps)

lemma blocks_outside:
  "name \<noteq> ''tem:Item'' \<Longrightarrow> name \<noteq> ''/tem:Item'' \<Longrightarrow>
   scanBlocks opened acc (Some name) None (CHR ''>'' # cs) = scanBlocks name [] None None cs"
  by (simp add: scanBlocks.simps)

lemma blocks_element_close:
  "name \<noteq> ''tem:Item'' \<Longrightarrow> name \<noteq> ''/tem:Item'' \<Longrightarrow> name = CHR ''/'' # opened \<Longrightarrow>
   scanBlocks opened acc (Some name) (Some b) (CHR ''>'' # cs) =
   scanBlocks name [] None (Some (b @ [(opened, acc)])) cs"
  by (simp add: scanBlocks.simps)

lemma blocks_element_open:
  "name \<noteq> ''tem:Item'' \<Longrightarrow> name \<noteq> ''/tem:Item'' \<Longrightarrow> name \<noteq> CHR ''/'' # opened \<Longrightarrow>
   scanBlocks opened acc (Some name) (Some b) (CHR ''>'' # cs) =
   scanBlocks name [] None (Some b) cs"
  by (simp add: scanBlocks.simps)

lemma scanBlocks_text:
  "CHR ''<'' \<notin> set u \<Longrightarrow>
   scanBlocks opened acc None block (u @ rest) = scanBlocks opened (acc @ u) None block rest"
  by (induction u arbitrary: acc) (auto simp: blocks_text_char)

lemma scanBlocks_xmlEscape:
  "scanBlocks opened acc None block (xmlEscape s @ rest) =
   scanBlocks opened (acc @ xmlEscape s) None block rest"
  by (rule scanBlocks_text [OF xmlEscape_no_markup(1)])

lemma scanBlocks_fmt_d:
  "scanBlocks opened acc None block (fmt_d i @ rest) =
   scanBlocks opened (acc @ fmt_d i) None block rest"
  by (rule scanBlocks_text [OF fmt_d_no_lt])

lemmas blocks_rules = blocks_text_char blocks_tag_open blocks_tag_char blocks_item_open
  blocks_item_close blocks_outside blocks_element_close blocks_element_open
  scanBlocks.simps(1) scanBlocks_xmlEscape scanBlocks_fmt_d

lemma scanBlocks_item:
  "scanBlocks opened [] None None (soapEnvelope_item item @ rest) =
     [(''tem:SKU'', xmlEscape (SKU item)),
      (''tem:ProductName'', xmlEscape (ProductName item)),
      (''tem:Quantity'', fmt_d (sint (Quantity item))),
      (''tem:UnitPrice'', xmlEscape (UnitPrice item)),
      (''tem:VariantTitle'', xmlEscape (VariantTitle item))] #
     scanBlocks ''/tem:Item'' [] None None rest"
  by (simp add: soapEnvelope_item_def blocks_rules)

lemma scanBlocks_items:
  "scanBlocks opened [] None None (concat (map soapEnvelope_item items) @ rest) =
     map (\<lambda>item.
       [(''tem:SKU'', xmlEscape (SKU item)),
        (''tem:ProductName'', xmlEscape (ProductName item)),
        (''tem:Quantity'', fmt_d (sint (Quantity item))),
        (''tem:UnitPrice'', xmlEscape (UnitPrice item)),
        (''tem:VariantTitle'', xmlEscape (VariantTitle item))]) items @
     scanBlocks (if items = [] then opened else ''/tem:Item'') [] None None rest"
proof (induction items arbitrary: opened)
  case Nil
  show ?case by simp
next
  case (Cons item items)
  have "scanBlocks opened [] None None (concat (map soapEnvelope_item (item # items)) @ rest) =
        scanBlocks opened [] None None
          (soapEnvelope_item item @ concat (map soapEnvelope_item items) @ rest)"
    by simp
  also have "\<dots> =
     [(''tem:SKU'', xmlEscape (SKU item)),
      (''tem:ProductName'', xmlEscape (ProductName item)),
      (''tem:Quantity'', fmt_d (sint (Quantity item))),
      (''tem:UnitPrice'', xmlEscape (UnitPrice item)),
      (''tem:VariantTitle'', xmlEscape (VariantTitle item))] #
     scanBlocks ''/tem:Item'' [] None None (concat (map soapEnvelope_item items) @ rest)"
    by (rule scanBlocks_item)
  finally show ?case
    by (simp add: Cons.IH)
qed

lemma scanBlocks_open:
  "scanBlocks [] [] None None (soapEnvelope_open erpOrder @ rest) =
   scanBlocks ''tem:Items'' [] None None rest"
  by (simp add: soapEnvelope_open_def blocks_rules)

lemma scanBlocks_close:
  "scanBlocks opened [] None None (soapEnvelope_close erpOrder) = []"
  by (simp add: soapEnvelope_close_def blocks_rules)

lemma itemBlocks_createSOAPEnvelope:
  "itemBlocks (createSOAPEnvelope erpOrder) =
     map (\<lambda>item.
       [(''tem:SKU'', xmlEscape (SKU item)),
        (''tem:ProductName'', xmlEscape (ProductName item)),
        (''tem:Quantity'', fmt_d (sint (Quantity item))),
        (''tem:UnitPrice'', xmlEscape (UnitPrice item)),
        (''tem:VariantTitle'', xmlEscape (VariantTitle item))]) (Items erpOrder)"
  unfolding itemBlocks_def createSOAPEnvelope_blocks scanBlocks_open scanBlocks_items
    scanBlocks_close
  by simp

text \<open>
  Claim C6. The mapped items are the inbound line items converted one by one, in the same
  order and number; the envelope is the opening text, then the text that the loop body
  appends for each of the order's items in list order, then the closing text. Read back,
  the envelope holds exactly one \<^verbatim>\<open>tem:Item\<close> block per item, in the order of the
  items, each with the five values of its item; so the envelope of a mapped order holds
  one block per inbound line item, in the inbound order, with that line item's values.
  For the items A, B, C the blocks are those of A, B and C in that sequence.
\<close>

theorem line_item_order:
  "length (Items (transformOrder now shopifyOrder)) = length (s_LineItems shopifyOrder) \<and>
   Items (transformOrder now shopifyOrder) =
     map (\<lambda>item. \<lparr>SKU = li_SKU item, ProductName = li_Title item,
                    Quantity = li_Quantity item, UnitPrice = li_Price item,
                    VariantTitle = li_VariantTitle item\<rparr>) (s_LineItems shopifyOrder) \<and>
   createSOAPEnvelope erpOrder =
     soapEnvelope_open erpOrder @ concat (map soapEnvelope_item (Items erpOrder)) @
     soapEnvelope_close erpOrder \<and>
   createSOAPEnvelope (erpOrder\<lparr>Items := [A, B, C]\<rparr>) =
     soapEnvelope_open erpOrder @
     soapEnvelope_item A @ soapEnvelope_item B @ soapEnvelope_item C @
     soapEnvelope_close erpOrder \<and>
   itemBlocks (createSOAPEnvelope erpOrder) =
     map (\<lambda>item.
       [(''tem:SKU'', xmlEscape (SKU item)),
        (''tem:ProductName'', xmlEscape (ProductName item)),
        (''tem:Quantity'', fmt_d (sint (Quantity item))),
        (''tem:UnitPrice'', xmlEscape (UnitPrice item)),
        (''tem:VariantTitle'', xmlEscape (VariantTitle item))]) (Items erpOrder) \<and>
   itemBlocks (createSOAPEnvelope (erpOrder\<lparr>Items := [A, B, C]\<rparr>)) =
     [[(''tem:SKU'', xmlEscape (SKU A)),
       (''tem:ProductName'', xmlEscape (ProductName A)),
       (''tem:Quantity'', fmt_d (sint (Quantity A))),
       (''tem:UnitPrice'', xmlEscape (UnitPrice A)),
       (''tem:VariantTitle'', xmlEscape (VariantTitle A))],
      [(''tem:SKU'', xmlEscape (SKU B)),
       (''tem:ProductName'', xmlEscape (ProductName B)),
       (''tem:Quantity'', fmt_d (sint (Quantity B))),
       (''tem:UnitPrice'', xmlEscape (UnitPrice B)),
       (''tem:VariantTitle'', xmlEscape (VariantTitle B))],
      [(''tem:SKU'', xmlEscape (SKU C)),
       (''tem:ProductName'', xmlEscape (ProductName C)),
       (''tem:Quantity'', fmt_d (sint (Quantity C))),
       (''tem:UnitPrice'', xmlEscape (UnitPrice C)),
       (''tem:VariantTitle'', xmlEscape (VariantTitle C))]] \<and>
   itemBlocks (createSOAPEnvelope (transformOrder now shopifyOrder)) =
     map (\<lambda>item.
       [(''tem:SKU'', xmlEscape (li_SKU item)),
        (''tem:ProductName'', xmlEscape (li_Title item)),
        (''tem:Quantity'', fmt_d (sint (li_Quantity item))),
        (''tem:UnitPrice'', xmlEscape (li_Price item)),
        (''tem:VariantTitle'', xmlEscape (li_VariantTitle item))]) (s_LineItems shopifyOrder) \<and>
   length (itemBlocks (createSOAPEnvelope (transformOrder now shopifyOrder))) =
     length (s_LineItems shopifyOrder)"
proof (intro conjI)
  show "length (Items (transformOrder now shopifyOrder)) = length (s_LineItems shopifyOrder)"
    by (simp add: Items_transformOrder)
  show "Items (transformOrder now shopifyOrder) =
     map (\<lambda>item. \<lparr>SKU = li_SKU item, ProductName = li_Title item,
                    Quantity = li_Quantity item, UnitPrice = li_Price item,
                    VariantTitle = li_VariantTitle item\<rparr>) (s_LineItems shopifyOrder)"
    by (rule Items_transformOrder)
  show "createSOAPEnvelope erpOrder =
     soapEnvelope_open erpOrder @ concat (map soapEnvelope_item (Items erpOrder)) @
     soapEnvelope_close erpOrder"
    by (rule createSOAPEnvelope_blocks)
  show "createSOAPEnvelope (erpOrder\<lparr>Items := [A, B, C]\<rparr>) =
     soapEnvelope_open erpOrder @
     soapEnvelope_item A @ soapEnvelope_item B @ soapEnvelope_item C @
     soapEnvelope_close erpOrder"
    by (simp add: createSOAPEnvelope_blocks soapEnvelope_open_def soapEnvelope_close_def)
  show "itemBlocks (createSOAPEnvelope erpOrder) =
     map (\<lambda>item.
       [(''tem:SKU'', xmlEscape (SKU item)),
        (''tem:ProductName'', xmlEscape (ProductName item)),
        (''tem:Quantity'', fmt_d (sint (Quantity item))),
        (''tem:UnitPrice'', xmlEscape (UnitPrice item)),
        (''tem:VariantTitle'', xmlEscape (VariantTitle item))]) (Items erpOrder)"
    by (rule itemBlocks_createSOAPEnvelope)
  show "itemBlocks (createSOAPEnvelope (erpOrder\<lparr>Items := [A, B, C]\<rparr>)) =
     [[(''tem:SKU'', xmlEscape (SKU A)),
       (''tem:ProductName'', xmlEscape (ProductName A)),
       (''tem:Quantity'', fmt_d (sint (Quantity A))),
       (''tem:UnitPrice'', xmlEscape (UnitPrice A)),
       (''tem:VariantTitle'', xmlEscape (VariantTitle A))],
      [(''tem:SKU'', xmlEscape (SKU B)),
       (''tem:ProductName'', xmlEscape (ProductName B)),
       (''tem:Quantity'', fmt_d (sint (Quantity B))),
       (''tem:UnitPrice'', xmlEscape (UnitPrice B)),
       (''tem:VariantTitle'', xmlEscape (VariantTitle B))],
      [(''tem:SKU'', xmlEscape (SKU C)),
       (''tem:ProductName'', xmlEscape (ProductName C)),
       (''tem:Quantity'', fmt_d (sint (Quantity C))),
       (''tem:UnitPrice'', xmlEscape (UnitPrice C)),
       (''tem:VariantTitle'', xmlEscape (VariantTitle C))]]"
    by (simp add: itemBlocks_createSOAPEnvelope)
  show blocks: "itemBlocks (createSOAPEnvelope (transformOrder now shopifyOrder)) =
     map (\<lambda>item.
       [(''tem:SKU'', xmlEscape (li_SKU item)),
        (''tem:ProductName'', xmlEscape (li_Title item)),
        (''tem:Quantity'', fmt_d (sint (li_Quantity item))),
        (''tem:UnitPrice'', xmlEscape (li_Price item)),
        (''tem:VariantTitle'', xmlEscape (li_VariantTitle item))]) (s_LineItems shopifyOrder)"
    by (simp add: itemBlocks_createSOAPEnvelope Items_transformOrder comp_def)
  show "length (itemBlocks (createSOAPEnvelope (transformOrder now shopifyOrder))) =
     length (s_LineItems shopifyOrder)"
    by (simp add: blocks)
qed

end
